theory Spec2Isabelle
  imports Main
begin

section \<open>The OPF metadata resolver (class OPF of opf.js)\<close>

text \<open>
  This theory embeds the class \<^verbatim>\<open>OPF\<close>: the namespaced tag query
  (\<^verbatim>\<open>getMetas\<close>, \<^verbatim>\<open>getMeta\<close>), the refinement resolver (\<^verbatim>\<open>refineMeta\<close>),
  the title, creator and identifier resolvers, the manifest and spine resolvers, the
  cover resolver and the constructor that assembles the record.

  Conventions of the embedding.
  \<^item> A JavaScript string is a HOL \<open>string\<close>; a character stands for one code unit below
    256. Within that range the character classes of the source are exact: \<^verbatim>\<open>\d\<close> is
    the ten ASCII digits, \<^verbatim>\<open>\s\<close> is TAB, LF, VT, FF, CR, SPACE and U+00A0, the line
    terminators (which \<^verbatim>\<open>.\<close> does not match) are LF and CR, and a case conversion
    followed by a comparison with an ASCII literal only ever depends on the ASCII letters.
  \<^item> \<^verbatim>\<open>null\<close> and \<^verbatim>\<open>undefined\<close> are \<open>None\<close>; a value is falsy when it is
    \<open>None\<close> or the empty string.
  \<^item> An exception is a value \<open>Inl e\<close> of a sum type; \<open>Inr\<close> is a normal return.
  \<^item> A plain object used as a dictionary is a map, read through \<open>js_get\<close>, which also
    sees the members every object inherits from \<^verbatim>\<open>Object.prototype\<close>, and written
    through \<open>put_string\<close>, which drops the write of a string to \<^verbatim>\<open>__proto__\<close>.
  \<^item> What the class calls and does not define is a parameter: \<open>formatISBN\<close> and
    \<open>validateISBN\<close> (\<^verbatim>\<open>hyphenate\<close> and \<^verbatim>\<open>validate\<close> of beautify-isbn),
    \<open>parseLanguage\<close>, and the time value computed by \<^verbatim>\<open>new Date(text)\<close>. They are
    taken to be pure and total.
\<close>

subsection \<open>Outcomes\<close>

text \<open>
  \<open>TypeError\<close>: a member of \<^verbatim>\<open>null\<close> or \<^verbatim>\<open>undefined\<close> is read, or a
  non-function is called. \<open>SyntaxError\<close>: the selector engine rejects a selector.
  \<open>Unmodelled\<close>: the source leaves the fragment this theory describes (a selector
  assembled from text that the selector engine below does not describe, such as text
  with characters other than ASCII letters, digits, \<^verbatim>\<open>-\<close>, \<^verbatim>\<open>_\<close>, the colon and
  the full stop, a write into a shared built-in object, a sequence number outside the
  exactly representable integers); nothing is claimed about such a run.
\<close>

datatype abort = TypeError | SyntaxError | Unmodelled

subsection \<open>Strings\<close>

definition is_digit :: "char \<Rightarrow> bool" where
  "is_digit c = (c \<in> set ''0123456789'')"

definition is_space :: "char \<Rightarrow> bool" where
  "is_space c =
     (c \<in> set [CHR 0x09, CHR 0x0A, CHR 0x0B, CHR 0x0C, CHR 0x0D, CHR 0x20, CHR 0xA0])"

definition line_terminator :: "char \<Rightarrow> bool" where
  "line_terminator c = (c = CHR 0x0A \<or> c = CHR 0x0D)"

definition is_upper :: "char \<Rightarrow> bool" where
  "is_upper c = (c \<in> set ''ABCDEFGHIJKLMNOPQRSTUVWXYZ'')"

definition is_lower :: "char \<Rightarrow> bool" where
  "is_lower c = (c \<in> set ''abcdefghijklmnopqrstuvwxyz'')"

definition lower_char :: "char \<Rightarrow> char" where
  "lower_char c = (if is_upper c then char_of (of_char c + (32::nat)) else c)"

definition upper_char :: "char \<Rightarrow> char" where
  "upper_char c = (if is_lower c then char_of (of_char c - (32::nat)) else c)"

text \<open>\<^verbatim>\<open>s.toLowerCase()\<close> and \<^verbatim>\<open>s.toUpperCase()\<close>, on the ASCII letters.\<close>

definition toLowerCase :: "string \<Rightarrow> string" where
  "toLowerCase s = map lower_char s"

definition toUpperCase :: "string \<Rightarrow> string" where
  "toUpperCase s = map upper_char s"

text \<open>\<^verbatim>\<open>text.replace(/[^\d]+/g, '')\<close>: every run of non-digits is deleted.\<close>

fun digits_only :: "string \<Rightarrow> string" where
  "digits_only [] = []"
| "digits_only (c # cs) = (if is_digit c then c # digits_only cs else digits_only cs)"

text \<open>\<^verbatim>\<open>s.indexOf(c)\<close> for a single character; \<open>None\<close> is the result -1.\<close>

fun indexOf :: "string \<Rightarrow> char \<Rightarrow> nat option" where
  "indexOf [] c = None"
| "indexOf (d # ds) c = (if d = c then Some 0 else map_option Suc (indexOf ds c))"

text \<open>
  \<^verbatim>\<open>name.split(/\s+/)\<close>: the pieces between the maximal runs of white space. A run at
  the start or the end of the name leaves an empty piece there, and the empty name
  gives one empty piece.
\<close>

fun split_ws :: "string \<Rightarrow> string list" where
  "split_ws [] = [[]]"
| "split_ws (c # cs) =
     (if is_space c then
        (if cs \<noteq> [] \<and> is_space (hd cs) then split_ws cs else [] # split_ws cs)
      else
        (case split_ws cs of
           [] \<Rightarrow> [[c]]
         | t # ts \<Rightarrow> (c # t) # ts))"

text \<open>\<^verbatim>\<open>parts.join(sep)\<close>.\<close>

fun join :: "string \<Rightarrow> string list \<Rightarrow> string" where
  "join sep [] = []"
| "join sep [t] = t"
| "join sep (t # u # ts) = t @ sep @ join sep (u # ts)"

text \<open>
  \<^verbatim>\<open>attr.replace(/^.+:/, '')\<close>: the longest prefix that ends in a colon, holds at least
  one character before that colon and no line terminator, is deleted. \<open>last_colon\<close> is
  the number of characters to delete, counted over the first line of the name.
\<close>

fun last_colon :: "string \<Rightarrow> nat option" where
  "last_colon [] = None"
| "last_colon (c # cs) =
     (if line_terminator c then None
      else (case last_colon cs of
              Some n \<Rightarrow> Some (Suc n)
            | None \<Rightarrow> if cs \<noteq> [] \<and> hd cs = CHR '':'' then Some 2 else None))"

definition strip_scheme :: "string \<Rightarrow> string" where
  "strip_scheme a = (case last_colon a of None \<Rightarrow> a | Some n \<Rightarrow> drop n a)"

text \<open>
  \<^verbatim>\<open>href.replace(/.*\./g, '')\<close>: on every line of the text, everything up to the last
  full stop of that line is deleted. \<open>after_dots\<close> returns the result and whether the
  current line of it still has a full stop to its right.
\<close>

fun after_dots :: "string \<Rightarrow> string \<times> bool" where
  "after_dots [] = ([], False)"
| "after_dots (c # cs) =
     (let (r, dot) = after_dots cs in
      if line_terminator c then (c # r, False)
      else if dot then (r, True)
      else if c = CHR ''.'' then (r, True)
      else (c # r, False))"

definition extension :: "string \<Rightarrow> string" where
  "extension href = fst (after_dots href)"

text \<open>\<^verbatim>\<open>id.match(/^isbn/i)\<close>.\<close>

definition isbn_prefixed :: "string \<Rightarrow> bool" where
  "isbn_prefixed s = (toLowerCase (take 4 s) = ''isbn'')"

subsection \<open>The parsed document\<close>

text \<open>
  The document the parser returns: a tree of elements and text nodes. An element has its
  qualified name (\<^verbatim>\<open>tagName\<close>, such as \<^verbatim>\<open>dc:title\<close>), its attributes under their
  qualified names in document order, and its children.
\<close>

datatype node = Element string "(string \<times> string) list" "node list" | Text string

fun tagName :: "node \<Rightarrow> string" where
  "tagName (Element t as cs) = t"
| "tagName (Text s) = []"

fun getAttribute :: "node \<Rightarrow> string \<Rightarrow> string option" where
  "getAttribute (Element t as cs) n = map_of as n"
| "getAttribute (Text s) n = None"

fun getAttributeNames :: "node \<Rightarrow> string list" where
  "getAttributeNames (Element t as cs) = map fst as"
| "getAttributeNames (Text s) = []"

fun textContent :: "node \<Rightarrow> string" where
  "textContent (Text s) = s"
| "textContent (Element t as cs) = concat (map textContent cs)"

text \<open>The local name of a qualified name: what follows its colon.\<close>

definition localName :: "string \<Rightarrow> string" where
  "localName t = (case indexOf t (CHR '':'') of None \<Rightarrow> t | Some i \<Rightarrow> drop (Suc i) t)"

text \<open>
  Every element of the tree in document order, each with the local names of its
  ancestors, the parent first.
\<close>

fun elements :: "string list \<Rightarrow> node \<Rightarrow> (string list \<times> node) list" where
  "elements anc (Text s) = []"
| "elements anc (Element t as cs) =
     (anc, Element t as cs) # concat (map (elements (localName t # anc)) cs)"

subsection \<open>The selector engine\<close>

text \<open>
  The selectors of the source have one shape: type selectors joined by the child
  combinator (\<^verbatim>\<open>></\<close>) or the descendant combinator (a space), the last of them with
  at most one attribute test. A type selector matches on the local name, in any
  namespace; an attribute test reads the attribute of that unprefixed name.
  \<open>Sel ctx n t\<close> is the selector whose subject has local name \<open>n\<close> and passes the test
  \<open>t\<close>, and whose ancestors are required by \<open>ctx\<close>, the nearest first: the selector
  \<^verbatim>\<open>package > metadata meta[name=cover]\<close> is
  \<open>Sel [(Descendant, ''metadata''), (Child, ''package'')] ''meta'' (Some (AttrEquals ''name'' ''cover''))\<close>.
\<close>

datatype combinator = Child | Descendant

datatype attr_test = AttrEquals string string | AttrIncludes string string

datatype selector = Sel "(combinator \<times> string) list" string "attr_test option"

fun match_context :: "(combinator \<times> string) list \<Rightarrow> string list \<Rightarrow> bool" where
  "match_context [] anc = True"
| "match_context ((k, n) # r) [] = False"
| "match_context ((Child, n) # r) (a # anc) = (a = n \<and> match_context r anc)"
| "match_context ((Descendant, n) # r) (a # anc) =
     ((a = n \<and> match_context r anc) \<or> match_context ((Descendant, n) # r) anc)"

text \<open>The words of a white-space separated attribute value (for \<^verbatim>\<open>~=\<close>).\<close>

definition css_space :: "char \<Rightarrow> bool" where
  "css_space c = (c \<in> set [CHR 0x09, CHR 0x0A, CHR 0x0C, CHR 0x0D, CHR 0x20])"

fun css_words :: "string \<Rightarrow> string list" where
  "css_words [] = []"
| "css_words (c # cs) =
     (if css_space c then css_words cs
      else (case cs of
              [] \<Rightarrow> [[c]]
            | d # ds \<Rightarrow>
                if css_space d then [c] # css_words cs
                else (case css_words cs of [] \<Rightarrow> [[c]] | w # ws \<Rightarrow> (c # w) # ws)))"

fun attr_holds :: "attr_test option \<Rightarrow> node \<Rightarrow> bool" where
  "attr_holds None el = True"
| "attr_holds (Some (AttrEquals n v)) el = (getAttribute el n = Some v)"
| "attr_holds (Some (AttrIncludes n v)) el =
     (case getAttribute el n of None \<Rightarrow> False | Some s \<Rightarrow> v \<in> set (css_words s))"

fun matches :: "selector \<Rightarrow> string list \<times> node \<Rightarrow> bool" where
  "matches (Sel ctx n t) (anc, el) =
     (localName (tagName el) = n \<and> attr_holds t el \<and> match_context ctx anc)"

definition querySelectorAll :: "node \<Rightarrow> selector \<Rightarrow> node list" where
  "querySelectorAll doc sel = map snd (filter (matches sel) (elements [] doc))"

definition querySelector :: "node \<Rightarrow> selector \<Rightarrow> node option" where
  "querySelector doc sel = (case querySelectorAll doc sel of [] \<Rightarrow> None | el # els \<Rightarrow> Some el)"

text \<open>
  Three selectors are assembled from text: from the tag name handed to \<open>getMetas\<close>,
  and from identifiers written in the document. Where that text is written with the
  ASCII characters of a CSS name (letters, digits, \<^verbatim>\<open>-\<close> and \<^verbatim>\<open>_\<close>) the selector
  is the one intended: a type selector, or an attribute test against an identifier. A
  full stop, the one other ASCII character of an XML name, makes the selector
  ill-formed where an attribute value is expected, and so does a value that is no
  identifier (one that starts with a digit, say); a type selector written with name
  characters and colons that ends in a colon is ill-formed as well, the colon opening
  a pseudo-class that is not there. On an ill-formed selector the engine raises. For
  any other text the outcome is \<open>Unmodelled\<close>.
\<close>

definition name_start :: "char \<Rightarrow> bool" where
  "name_start c = (is_upper c \<or> is_lower c \<or> c = CHR ''_'')"

definition name_char :: "char \<Rightarrow> bool" where
  "name_char c = (name_start c \<or> is_digit c \<or> c = CHR ''-'')"

definition css_ident :: "string \<Rightarrow> bool" where
  "css_ident s =
     (list_all name_char s \<and>
      (case s of
         [] \<Rightarrow> False
       | c # r \<Rightarrow>
           if c = CHR ''-'' then (case r of [] \<Rightarrow> False | d # r' \<Rightarrow> d = CHR ''-'' \<or> name_start d)
           else name_start c))"

definition metadata_ctx :: "(combinator \<times> string) list" where
  "metadata_ctx = [(Descendant, ''metadata''), (Child, ''package'')]"

definition manifest_ctx :: "(combinator \<times> string) list" where
  "manifest_ctx = [(Descendant, ''manifest''), (Child, ''package'')]"

text \<open>\<^verbatim>\<open>"package > metadata " + tagName\<close>\<close>

definition sel_metadata :: "string \<Rightarrow> abort + selector" where
  "sel_metadata tag =
     (if css_ident tag then Inr (Sel metadata_ctx tag None)
      else if tag \<noteq> [] \<and> last tag = CHR '':'' \<and> list_all (\<lambda>c. name_char c \<or> c = CHR '':'') tag
      then Inl SyntaxError
      else Inl Unmodelled)"

text \<open>\<^verbatim>\<open>"package > metadata meta[refines=\\#" + id + "]"\<close>\<close>

definition sel_refines :: "string \<Rightarrow> abort + selector" where
  "sel_refines ident =
     (if list_all name_char ident
      then Inr (Sel metadata_ctx ''meta'' (Some (AttrEquals ''refines'' (CHR ''#'' # ident))))
      else if list_all (\<lambda>c. name_char c \<or> c = CHR ''.'') ident then Inl SyntaxError
      else Inl Unmodelled)"

text \<open>\<^verbatim>\<open>"package > manifest item[id=" + itemID + "]"\<close>\<close>

definition sel_item_id :: "string \<Rightarrow> abort + selector" where
  "sel_item_id itemID =
     (if css_ident itemID
      then Inr (Sel manifest_ctx ''item'' (Some (AttrEquals ''id'' itemID)))
      else if list_all (\<lambda>c. name_char c \<or> c = CHR ''.'') itemID then Inl SyntaxError
      else Inl Unmodelled)"

subsection \<open>Plain objects\<close>

text \<open>
  The members every object inherits from \<^verbatim>\<open>Object.prototype\<close>. A read
  \<^verbatim>\<open>obj[k]\<close> of a name the object does not own finds them: eleven functions, and
  \<^verbatim>\<open>Object.prototype\<close> itself under \<^verbatim>\<open>__proto__\<close>; all of them are truthy.
\<close>

definition object_prototype_members :: "string list" where
  "object_prototype_members =
     [''constructor'', ''hasOwnProperty'', ''isPrototypeOf'', ''propertyIsEnumerable'',
      ''toLocaleString'', ''toString'', ''valueOf'', ''__proto__'', ''__defineGetter__'',
      ''__defineSetter__'', ''__lookupGetter__'', ''__lookupSetter__'']"

datatype 'v property = Own 'v | Inherited string | Missing

definition js_get :: "(string \<rightharpoonup> 'v) \<Rightarrow> string \<Rightarrow> 'v property" where
  "js_get obj k =
     (case obj k of
        Some v \<Rightarrow> Own v
      | None \<Rightarrow> if k \<in> set object_prototype_members then Inherited k else Missing)"

text \<open>
  \<^verbatim>\<open>obj[k] = v\<close> for a string \<open>v\<close>: the write to \<^verbatim>\<open>__proto__\<close> reaches the
  inherited setter, which ignores a value that is no object.
\<close>

definition put_string :: "(string \<rightharpoonup> string) \<Rightarrow> string \<Rightarrow> string \<Rightarrow> (string \<rightharpoonup> string)" where
  "put_string obj k v = (if k = ''__proto__'' then obj else obj(k \<mapsto> v))"

definition truthy :: "string option \<Rightarrow> bool" where
  "truthy v = (case v of None \<Rightarrow> False | Some s \<Rightarrow> s \<noteq> [])"

text \<open>\<^verbatim>\<open>v || d\<close> for a string or \<^verbatim>\<open>null\<close> \<open>v\<close>.\<close>

definition or_else :: "string option \<Rightarrow> string \<Rightarrow> string" where
  "or_else v d = (case v of None \<Rightarrow> d | Some s \<Rightarrow> if s = [] then d else s)"

subsection \<open>getMetas and getMeta\<close>

text \<open>
  \<open>getMetas\<close> returns \<^verbatim>\<open>null\<close> (\<open>Inr None\<close>) or a list of elements.
  \<open>getMeta\<close> is the call \<^verbatim>\<open>getMeta(tagName, true)\<close>, the only one the class makes;
  \<^verbatim>\<open>els.length\<close> on \<^verbatim>\<open>null\<close> raises.
\<close>

definition getMetas :: "node \<Rightarrow> string \<Rightarrow> abort + node list option" where
  "getMetas doc origTagName =
     (case indexOf origTagName (CHR '':'') of
        None \<Rightarrow>
          (case sel_metadata origTagName of
             Inl e \<Rightarrow> Inl e
           | Inr sel \<Rightarrow> Inr (Some (querySelectorAll doc sel)))
      | Some colonIndex \<Rightarrow>
          if length origTagName \<le> Suc colonIndex then Inr None
          else
            (case sel_metadata (drop (Suc colonIndex) origTagName) of
               Inl e \<Rightarrow> Inl e
             | Inr sel \<Rightarrow>
                 Inr (Some (filter (\<lambda>el. tagName el = origTagName) (querySelectorAll doc sel)))))"

definition getMeta :: "node \<Rightarrow> string \<Rightarrow> abort + string option" where
  "getMeta doc origTagName =
     (case getMetas doc origTagName of
        Inl e \<Rightarrow> Inl e
      | Inr None \<Rightarrow> Inl TypeError
      | Inr (Some []) \<Rightarrow> Inr None
      | Inr (Some (el # els)) \<Rightarrow> Inr (Some (textContent el)))"

subsection \<open>refineMeta\<close>

text \<open>
  The first loop of \<open>refineMeta\<close>: the element's own attributes, written into
  \<open>scheme\<close> (the view itself when flattening, its \<^verbatim>\<open>noScheme\<close> group otherwise).
\<close>

fun own_attributes :: "bool \<Rightarrow> node \<Rightarrow> string list \<Rightarrow> (string \<rightharpoonup> string) \<Rightarrow> (string \<rightharpoonup> string)" where
  "own_attributes dropSchemes element [] scheme = scheme"
| "own_attributes dropSchemes element (attr # attrs) scheme =
     own_attributes dropSchemes element attrs
       (case getAttribute element attr of
          None \<Rightarrow> scheme
        | Some val \<Rightarrow> put_string scheme (if dropSchemes then strip_scheme attr else attr) val)"

text \<open>The second loop when flattening: every refining meta writes into the one object.\<close>

fun refine_flat :: "bool \<Rightarrow> node list \<Rightarrow> (string \<rightharpoonup> string) \<Rightarrow> (string \<rightharpoonup> string)" where
  "refine_flat dropSchemes [] obj = obj"
| "refine_flat dropSchemes (el # els) obj =
     (case getAttribute el ''property'' of
        None \<Rightarrow> refine_flat dropSchemes els obj
      | Some attr \<Rightarrow>
          if attr = [] then refine_flat dropSchemes els obj
          else refine_flat dropSchemes els
                 (put_string obj (if dropSchemes then strip_scheme attr else attr) (textContent el)))"

text \<open>
  The second loop when grouping: the group is \<^verbatim>\<open>o[scheme]\<close>, created when that read
  is falsy. For a scheme that names an inherited member the read is truthy, no group is
  created and the write goes into the shared built-in object: \<open>Unmodelled\<close>.
\<close>

fun refine_grouped ::
  "bool \<Rightarrow> node list \<Rightarrow> (string \<rightharpoonup> (string \<rightharpoonup> string)) \<Rightarrow> abort + (string \<rightharpoonup> (string \<rightharpoonup> string))" where
  "refine_grouped dropSchemes [] obj = Inr obj"
| "refine_grouped dropSchemes (el # els) obj =
     (let scheme = or_else (getAttribute el ''scheme'') ''noScheme'' in
      case getAttribute el ''property'' of
        None \<Rightarrow> refine_grouped dropSchemes els obj
      | Some attr \<Rightarrow>
          if attr = [] then refine_grouped dropSchemes els obj
          else
            (case js_get obj scheme of
               Inherited m \<Rightarrow> Inl Unmodelled
             | Missing \<Rightarrow>
                 refine_grouped dropSchemes els
                   (obj(scheme \<mapsto> put_string Map.empty
                          (if dropSchemes then strip_scheme attr else attr) (textContent el)))
             | Own grp \<Rightarrow>
                 refine_grouped dropSchemes els
                   (obj(scheme \<mapsto> put_string grp
                          (if dropSchemes then strip_scheme attr else attr) (textContent el)))))"

text \<open>\<^verbatim>\<open>refineMeta(element, true, dropSchemes)\<close>\<close>

definition refineMeta_flat :: "node \<Rightarrow> node \<Rightarrow> bool \<Rightarrow> abort + (string \<rightharpoonup> string)" where
  "refineMeta_flat doc element dropSchemes =
     (let scheme = own_attributes dropSchemes element (getAttributeNames element) Map.empty in
      case scheme ''id'' of
        None \<Rightarrow> Inr scheme
      | Some ident \<Rightarrow>
          if ident = [] then Inr scheme
          else
            (case sel_refines ident of
               Inl e \<Rightarrow> Inl e
             | Inr sel \<Rightarrow> Inr (refine_flat dropSchemes (querySelectorAll doc sel) scheme)))"

text \<open>\<^verbatim>\<open>refineMeta(element, false, dropSchemes)\<close>\<close>

definition refineMeta_grouped ::
  "node \<Rightarrow> node \<Rightarrow> bool \<Rightarrow> abort + (string \<rightharpoonup> (string \<rightharpoonup> string))" where
  "refineMeta_grouped doc element dropSchemes =
     (let scheme = own_attributes dropSchemes element (getAttributeNames element) Map.empty in
      case scheme ''id'' of
        None \<Rightarrow> Inr (Map.empty(''noScheme'' \<mapsto> scheme))
      | Some ident \<Rightarrow>
          if ident = [] then Inr (Map.empty(''noScheme'' \<mapsto> scheme))
          else
            (case sel_refines ident of
               Inl e \<Rightarrow> Inl e
             | Inr sel \<Rightarrow>
                 refine_grouped dropSchemes (querySelectorAll doc sel)
                   (Map.empty(''noScheme'' \<mapsto> scheme))))"

text \<open>
  \<open>refineMeta\<close> with both flags. The view is the object \<^verbatim>\<open>o\<close> of the source, which
  both of its \<^verbatim>\<open>return\<close> statements return: flat, or a map of groups.
\<close>

datatype view = Flat "string \<rightharpoonup> string" | Grouped "string \<rightharpoonup> (string \<rightharpoonup> string)"

definition refineMeta :: "node \<Rightarrow> node \<Rightarrow> bool \<Rightarrow> bool \<Rightarrow> abort + view" where
  "refineMeta doc element flatten dropSchemes =
     (if flatten then map_sum id Flat (refineMeta_flat doc element dropSchemes)
      else map_sum id Grouped (refineMeta_grouped doc element dropSchemes))"

subsection \<open>getTitles\<close>

fun titles_loop :: "node \<Rightarrow> node list \<Rightarrow> (string \<rightharpoonup> string) \<Rightarrow> abort + (string \<rightharpoonup> string)" where
  "titles_loop doc [] titles = Inr titles"
| "titles_loop doc (el # els) titles =
     (case refineMeta_flat doc el True of
        Inl e \<Rightarrow> Inl e
      | Inr title \<Rightarrow>
          if \<not> truthy (title ''title-type'') then
            (if \<not> truthy (titles ''main'')
             then titles_loop doc els (titles(''main'' \<mapsto> textContent el))
             else titles_loop doc els titles)
          else titles_loop doc els
                 (put_string titles (or_else (title ''title-type'') []) (textContent el)))"

text \<open>\<^verbatim>\<open>for(el of els)\<close> raises when \<^verbatim>\<open>els\<close> is \<^verbatim>\<open>null\<close>.\<close>

definition getTitles :: "node \<Rightarrow> abort + (string \<rightharpoonup> string)" where
  "getTitles doc =
     (case getMetas doc ''dc:title'' of
        Inl e \<Rightarrow> Inl e
      | Inr None \<Rightarrow> Inl TypeError
      | Inr (Some els) \<Rightarrow> titles_loop doc els Map.empty)"

subsection \<open>parseCreators and getAuthors\<close>

text \<open>
  A creator is the flattened view of its element with the two members the loop sets:
  \<^verbatim>\<open>name\<close>, the text of the element, and \<^verbatim>\<open>role\<close>, defaulting to
  \<^verbatim>\<open>unknown\<close>. The other members are read from \<open>props\<close>.
\<close>

record creator =
  creator_name :: string
  creator_role :: string
  props :: "string \<rightharpoonup> string"

text \<open>
  \<^verbatim>\<open>parseInt(x) || 0\<close> for a string or \<^verbatim>\<open>undefined\<close> \<open>x\<close>: leading white space,
  a sign, a prefix \<^verbatim>\<open>0x\<close> for base 16, then the longest run of digits; no digit at all
  is NaN, and NaN and zero are falsy. The result is a floating-point number, equal to
  the integer read when that is below \<open>2 ^ 53\<close>.
\<close>

definition digit_value :: "int \<Rightarrow> char \<Rightarrow> int option" where
  "digit_value radix c =
     (let v = (if is_digit c then of_char c - 48
               else if is_lower c then of_char c - 87
               else if is_upper c then of_char c - 55
               else radix)
      in if v < radix then Some v else None)"

fun read_digits :: "int \<Rightarrow> string \<Rightarrow> int list" where
  "read_digits radix [] = []"
| "read_digits radix (c # cs) =
     (case digit_value radix c of None \<Rightarrow> [] | Some v \<Rightarrow> v # read_digits radix cs)"

definition parseInt_or_0 :: "string option \<Rightarrow> abort + int" where
  "parseInt_or_0 x =
     (case x of
        None \<Rightarrow> Inr 0
      | Some s \<Rightarrow>
          (let t = dropWhile is_space s;
               negative = (t \<noteq> [] \<and> hd t = CHR ''-'');
               u = (if t \<noteq> [] \<and> (hd t = CHR ''-'' \<or> hd t = CHR ''+'') then tl t else t);
               hex = (take 2 u = ''0x'' \<or> take 2 u = ''0X'');
               radix = (if hex then 16 else 10);
               ds = read_digits radix (if hex then drop 2 u else u);
               n = foldl (\<lambda>a d. a * radix + d) 0 ds
           in if 2 ^ 53 \<le> n then Inl Unmodelled
              else Inr (if negative then - n else n)))"

text \<open>
  \<^verbatim>\<open>list.sort(this.creatorSort)\<close>: the comparison is the difference of the two
  sequence numbers, and the sort is stable.
\<close>

fun with_seq :: "creator list \<Rightarrow> abort + (int \<times> creator) list" where
  "with_seq [] = Inr []"
| "with_seq (c # cs) =
     (case parseInt_or_0 (props c ''display-seq'') of
        Inl e \<Rightarrow> Inl e
      | Inr n \<Rightarrow> (case with_seq cs of Inl e \<Rightarrow> Inl e | Inr r \<Rightarrow> Inr ((n, c) # r)))"

definition sort_creators :: "creator list \<Rightarrow> abort + creator list" where
  "sort_creators cs =
     (case with_seq cs of Inl e \<Rightarrow> Inl e | Inr r \<Rightarrow> Inr (map snd (sort_key fst r)))"

text \<open>
  The creator set, an object with one list of creators per role. The roles are kept in
  the order the object enumerates them: the array indices first (the decimal numerals
  of the numbers below \<open>2 ^ 32 - 1\<close>, written without a leading zero), in ascending
  order, then the other names in the order they were added. \<open>add_role\<close> adds a role
  the set does not have.
\<close>

type_synonym creators = "(string \<times> creator list) list"

definition array_index :: "string \<Rightarrow> int option" where
  "array_index k =
     (let n = foldl (\<lambda>a c. a * 10 + (of_char c - 48)) 0 k in
      if k \<noteq> [] \<and> list_all is_digit k \<and> (k = ''0'' \<or> hd k \<noteq> CHR ''0'') \<and> n < 2 ^ 32 - 1
      then Some n else None)"

fun add_role :: "string \<Rightarrow> creator list \<Rightarrow> creators \<Rightarrow> creators" where
  "add_role r cs [] = [(r, cs)]"
| "add_role r cs ((k, ks) # rest) =
     (case array_index r of
        None \<Rightarrow> (k, ks) # add_role r cs rest
      | Some n \<Rightarrow>
          (case array_index k of
             None \<Rightarrow> (r, cs) # (k, ks) # rest
           | Some m \<Rightarrow> if m < n then (k, ks) # add_role r cs rest else (r, cs) # (k, ks) # rest))"

text \<open>
  \<^verbatim>\<open>if(!creators[role]) creators[role] = []; creators[role].push(creator)\<close> for a
  role the set owns or lacks. When the read finds an inherited member instead, that
  member has no \<^verbatim>\<open>push\<close> and the call raises (in \<open>creators_loop\<close>).
\<close>

definition push_creator :: "string \<Rightarrow> creator \<Rightarrow> creators \<Rightarrow> creators" where
  "push_creator r c creators =
     (case map_of creators r of
        None \<Rightarrow> add_role r [c] creators
      | Some cs \<Rightarrow> map (\<lambda>(k, ks). if k = r then (k, ks @ [c]) else (k, ks)) creators)"

fun creators_loop :: "node \<Rightarrow> node list \<Rightarrow> creators \<Rightarrow> abort + creators" where
  "creators_loop doc [] creators = Inr creators"
| "creators_loop doc (el # els) creators =
     (case refineMeta_flat doc el True of
        Inl e \<Rightarrow> Inl e
      | Inr v \<Rightarrow>
          (let c = \<lparr>creator_name = textContent el,
                    creator_role = or_else (v ''role'') ''unknown'',
                    props = v\<rparr>
           in case js_get (map_of creators) (creator_role c) of
                Inherited m \<Rightarrow> Inl TypeError
              | Missing \<Rightarrow> creators_loop doc els (push_creator (creator_role c) c creators)
              | Own cs \<Rightarrow> creators_loop doc els (push_creator (creator_role c) c creators)))"

fun sort_roles :: "creators \<Rightarrow> abort + creators" where
  "sort_roles [] = Inr []"
| "sort_roles ((r, cs) # rest) =
     (case sort_creators cs of
        Inl e \<Rightarrow> Inl e
      | Inr cs' \<Rightarrow> (case sort_roles rest of Inl e \<Rightarrow> Inl e | Inr rest' \<Rightarrow> Inr ((r, cs') # rest')))"

text \<open>
  \<^verbatim>\<open>for(role in creators)\<close> sorts every list; then the authors default to the
  creators of no stated role. \<^verbatim>\<open>aut\<close> is no array index, so the role added there is
  the last one.
\<close>

definition parseCreators :: "node \<Rightarrow> abort + creators" where
  "parseCreators doc =
     (case getMetas doc ''dc:creator'' of
        Inl e \<Rightarrow> Inl e
      | Inr None \<Rightarrow> Inl TypeError
      | Inr (Some els) \<Rightarrow>
          (case creators_loop doc els [] of
             Inl e \<Rightarrow> Inl e
           | Inr collected \<Rightarrow>
               (case sort_roles collected of
                  Inl e \<Rightarrow> Inl e
                | Inr creators \<Rightarrow>
                    (case (map_of creators ''unknown'', map_of creators ''aut'') of
                       (Some unknown, None) \<Rightarrow>
                         Inr (filter (\<lambda>(r, cs). r \<noteq> ''unknown'') creators @ [(''aut'', unknown)])
                     | _ \<Rightarrow> Inr creators))))"

text \<open>
  \<open>filing_name\<close> is the branch of \<open>getAuthors\<close> that derives the name for filing from
  the display name.
\<close>

definition filing_name :: "string \<Rightarrow> string" where
  "filing_name nm =
     (let parts = split_ws nm in
      if length parts \<le> 1 then nm
      else last parts @ '', '' @ join '' '' (butlast parts))"

fun authors_loop :: "bool \<Rightarrow> creator list \<Rightarrow> string list \<Rightarrow> string list" where
  "authors_loop forFiling [] ret = ret"
| "authors_loop forFiling (author # rest) ret =
     (if forFiling then
        (if truthy (props author ''for-filing'')
         then authors_loop forFiling rest (ret @ [or_else (props author ''for-filing'') []])
         else authors_loop forFiling rest (ret @ [filing_name (creator_name author)]))
      else authors_loop forFiling rest (ret @ [creator_name author]))"

definition getAuthors :: "creators \<Rightarrow> bool \<Rightarrow> string list" where
  "getAuthors creators forFiling =
     (case map_of creators ''aut'' of
        None \<Rightarrow> []
      | Some aut \<Rightarrow> authors_loop forFiling aut [])"

subsection \<open>setISBN and parseIdentifiers\<close>

text \<open>
  The identifier set. Its keys are the labels the source writes; \<open>BuiltinKey m\<close> is the
  key an inherited member \<open>m\<close> of the code list turns into when it is used as a label.
  Its values are strings, and the list of URIs.
\<close>

datatype idkey = Key string | BuiltinKey string

datatype idval = Str string | Arr "string list"

type_synonym identifiers = "idkey \<rightharpoonup> idval"

definition truthy_val :: "idval option \<Rightarrow> bool" where
  "truthy_val v = (case v of None \<Rightarrow> False | Some (Str s) \<Rightarrow> s \<noteq> [] | Some (Arr xs) \<Rightarrow> True)"

definition onixCodeList5 :: "(string \<times> string) list" where
  "onixCodeList5 =
     [(''1'', ''Proprietary''), (''2'', ''ISBN-10''), (''3'', ''GTIN-13''), (''4'', ''UPC''),
      (''5'', ''ISMN-10''), (''6'', ''DOI''), (''13'', ''LCCN''), (''14'', ''GTIN-14''),
      (''15'', ''ISBN-13''), (''17'', ''Legal deposit number''), (''22'', ''URN''),
      (''23'', ''OCLC number''), (''25'', ''ISMN-13''), (''26'', ''ISBN-A''),
      (''27'', ''JP e-code''), (''28'', ''OLCC number''), (''29'', ''JP Magazine ID''),
      (''30'', ''UPC12+5''), (''31'', ''BNF Control number''), (''35'', ''ARK'')]"

definition setISBN :: "(string \<Rightarrow> string) \<Rightarrow> identifiers \<Rightarrow> string \<Rightarrow> identifiers" where
  "setISBN formatISBN obj text =
     (let val = digits_only text in
      if length val = 10 then obj(Key ''ISBN-10'' \<mapsto> Str (formatISBN val))
      else if length val = 13 then obj(Key ''ISBN-13'' \<mapsto> Str (formatISBN val))
      else obj)"

text \<open>The UUID test of the loop body.\<close>

definition note_uuid :: "string option \<Rightarrow> node \<Rightarrow> identifiers \<Rightarrow> identifiers" where
  "note_uuid epubID el obj =
     (if truthy epubID \<and> getAttribute el ''id'' = epubID
      then obj(Key ''UUID'' \<mapsto> Str (textContent el)) else obj)"

text \<open>The URI test of the loop body; a string has no \<^verbatim>\<open>push\<close>.\<close>

definition note_uri :: "node \<Rightarrow> identifiers \<Rightarrow> abort + identifiers" where
  "note_uri el obj =
     (if getAttribute el ''opf:scheme'' = Some ''URI'' then
        (case obj (Key ''URIs'') of
           None \<Rightarrow> Inr (obj(Key ''URIs'' \<mapsto> Arr [textContent el]))
         | Some (Arr uris) \<Rightarrow> Inr (obj(Key ''URIs'' \<mapsto> Arr (uris @ [textContent el])))
         | Some (Str s) \<Rightarrow>
             if s = [] then Inr (obj(Key ''URIs'' \<mapsto> Arr [textContent el]))
             else Inl TypeError)
      else Inr obj)"

text \<open>The test for the older form, \<^verbatim>\<open>opf:scheme="ISBN"\<close>.\<close>

definition old_isbn :: "node \<Rightarrow> bool" where
  "old_isbn el =
     (truthy (getAttribute el ''opf:scheme'') \<and>
      toUpperCase (or_else (getAttribute el ''opf:scheme'') []) = ''ISBN'')"

text \<open>
  The ONIX branch, entered when the view has a group \<^verbatim>\<open>onix:codelist5\<close>: \<open>grp\<close> is
  that group.
\<close>

definition onix_branch ::
  "(string \<Rightarrow> string) \<Rightarrow> (string \<rightharpoonup> string) \<Rightarrow> node \<Rightarrow> identifiers \<Rightarrow> identifiers" where
  "onix_branch formatISBN grp el obj =
     (if \<not> truthy (grp ''identifier-type'') then obj
      else
        (case js_get (map_of onixCodeList5) (or_else (grp ''identifier-type'') []) of
           Missing \<Rightarrow> obj
         | Inherited m \<Rightarrow> obj(BuiltinKey m \<mapsto> Str (textContent el))
         | Own attr \<Rightarrow>
             if attr = ''ISBN-10'' \<or> attr = ''ISBN-13''
             then obj(Key attr \<mapsto> Str (formatISBN (digits_only (textContent el))))
             else obj(Key attr \<mapsto> Str (textContent el))))"

text \<open>The last branch: an \<^verbatim>\<open>id\<close> that starts with \<^verbatim>\<open>isbn\<close>.\<close>

definition isbn_id_branch ::
  "(string \<Rightarrow> string) \<Rightarrow> (string \<rightharpoonup> (string \<rightharpoonup> string)) \<Rightarrow> node \<Rightarrow> identifiers \<Rightarrow> identifiers" where
  "isbn_id_branch formatISBN attrs el obj =
     (case attrs ''noScheme'' of
        None \<Rightarrow> obj
      | Some ns \<Rightarrow>
          if truthy (ns ''id'') \<and> isbn_prefixed (or_else (ns ''id'') [])
          then setISBN formatISBN obj (textContent el) else obj)"

text \<open>One round of the loop of \<open>parseIdentifiers\<close>.\<close>

definition identifier_step ::
  "(string \<Rightarrow> string) \<Rightarrow> node \<Rightarrow> string option \<Rightarrow> identifiers \<Rightarrow> node \<Rightarrow> abort + identifiers" where
  "identifier_step formatISBN doc epubID obj el =
     (case note_uri el (note_uuid epubID el obj) of
        Inl e \<Rightarrow> Inl e
      | Inr obj' \<Rightarrow>
          if old_isbn el then Inr (setISBN formatISBN obj' (textContent el))
          else
            (case refineMeta_grouped doc el False of
               Inl e \<Rightarrow> Inl e
             | Inr attrs \<Rightarrow>
                 (case attrs ''onix:codelist5'' of
                    Some grp \<Rightarrow> Inr (onix_branch formatISBN grp el obj')
                  | None \<Rightarrow> Inr (isbn_id_branch formatISBN attrs el obj'))))"

fun identifier_loop ::
  "(string \<Rightarrow> string) \<Rightarrow> node \<Rightarrow> string option \<Rightarrow> node list \<Rightarrow> identifiers \<Rightarrow> abort + identifiers" where
  "identifier_loop formatISBN doc epubID [] obj = Inr obj"
| "identifier_loop formatISBN doc epubID (el # els) obj =
     (case identifier_step formatISBN doc epubID obj el of
        Inl e \<Rightarrow> Inl e
      | Inr obj' \<Rightarrow> identifier_loop formatISBN doc epubID els obj')"

text \<open>
  The last resort after the loop: the UUID as an ISBN. An array has no
  \<^verbatim>\<open>replace\<close>.
\<close>

definition uuid_fallback ::
  "(string \<Rightarrow> string) \<Rightarrow> (string \<Rightarrow> bool) \<Rightarrow> identifiers \<Rightarrow> abort + identifiers" where
  "uuid_fallback formatISBN validateISBN obj =
     (if truthy_val (obj (Key ''UUID'')) \<and> \<not> truthy_val (obj (Key ''ISBN-10''))
         \<and> \<not> truthy_val (obj (Key ''ISBN-13''))
      then
        (case obj (Key ''UUID'') of
           Some (Str uuid) \<Rightarrow>
             (let val = digits_only uuid in
              if validateISBN val then Inr (setISBN formatISBN obj val) else Inr obj)
         | _ \<Rightarrow> Inl TypeError)
      else Inr obj)"

definition parseIdentifiers ::
  "(string \<Rightarrow> string) \<Rightarrow> (string \<Rightarrow> bool) \<Rightarrow> node \<Rightarrow> abort + identifiers" where
  "parseIdentifiers formatISBN validateISBN doc =
     (case querySelector doc (Sel [] ''package'' None) of
        None \<Rightarrow> Inr Map.empty
      | Some el \<Rightarrow>
          (case getMetas doc ''dc:identifier'' of
             Inl e \<Rightarrow> Inl e
           | Inr None \<Rightarrow> Inl TypeError
           | Inr (Some els) \<Rightarrow>
               if els = [] then Inr Map.empty
               else
                 (case identifier_loop formatISBN doc (getAttribute el ''unique-identifier'')
                         els Map.empty of
                    Inl e \<Rightarrow> Inl e
                  | Inr obj \<Rightarrow> uuid_fallback formatISBN validateISBN obj)))"

subsection \<open>parseManifest and parseSpine\<close>

fun manifest_loop :: "node list \<Rightarrow> (string \<rightharpoonup> string) \<Rightarrow> (string \<rightharpoonup> string)" where
  "manifest_loop [] obj = obj"
| "manifest_loop (el # els) obj =
     (if \<not> truthy (getAttribute el ''id'') then manifest_loop els obj
      else if \<not> truthy (getAttribute el ''href'') then manifest_loop els obj
      else manifest_loop els
             (put_string obj (or_else (getAttribute el ''id'') [])
                (or_else (getAttribute el ''href'') [])))"

definition parseManifest :: "node \<Rightarrow> (string \<rightharpoonup> string)" where
  "parseManifest doc =
     manifest_loop (querySelectorAll doc (Sel manifest_ctx ''item'' None)) Map.empty"

text \<open>
  An entry of the spine's item list: the href of a manifest item, or the inherited
  member the read \<^verbatim>\<open>items[idref]\<close> found.
\<close>

datatype spine_item = Href string | Builtin string

record spine =
  toc :: "string option"
  pageProgressionDirection :: string
  spine_items :: "spine_item list"

fun spine_loop :: "(string \<rightharpoonup> string) \<Rightarrow> node list \<Rightarrow> spine_item list \<Rightarrow> spine_item list" where
  "spine_loop items [] spine = spine"
| "spine_loop items (el # els) spine =
     (if \<not> truthy (getAttribute el ''idref'') then spine_loop items els spine
      else if getAttribute el ''linear'' = Some ''no'' then spine_loop items els spine
      else
        (case js_get items (or_else (getAttribute el ''idref'') []) of
           Missing \<Rightarrow> spine_loop items els spine
         | Inherited m \<Rightarrow> spine_loop items els (spine @ [Builtin m])
         | Own item \<Rightarrow>
             if item = [] then spine_loop items els spine
             else spine_loop items els (spine @ [Href item])))"

definition parseSpine :: "node \<Rightarrow> spine option" where
  "parseSpine doc =
     (let items = parseManifest doc in
      case querySelector doc (Sel [(Child, ''package'')] ''spine'' None) of
        None \<Rightarrow> None
      | Some spineEl \<Rightarrow>
          Some \<lparr>toc = getAttribute spineEl ''toc'',
                pageProgressionDirection =
                  or_else (getAttribute spineEl ''page-progression-direction'') ''ltr'',
                spine_items =
                  spine_loop items
                    (querySelectorAll doc
                       (Sel [(Descendant, ''spine''), (Child, ''package'')] ''itemref'' None))
                    []\<rparr>)"

subsection \<open>isValidCoverImageElement and parseCoverImage\<close>

definition supportedCoverMediaTypes :: "string list" where
  "supportedCoverMediaTypes = [''image/jpeg'', ''image/png'', ''image/gif'', ''image/svg+xml'']"

definition supportedCoverFileTypeConv :: "(string \<times> string) list" where
  "supportedCoverFileTypeConv =
     [(''jpeg'', ''image/jpeg''), (''jpg'', ''image/jpeg''), (''png'', ''image/png''),
      (''gif'', ''image/gif''), (''svg'', ''image/svg+xml'')]"

text \<open>The result is \<^verbatim>\<open>false\<close> (\<open>None\<close>) or the media type.\<close>

definition isValidCoverImageElement :: "node option \<Rightarrow> string option" where
  "isValidCoverImageElement e =
     (case e of
        None \<Rightarrow> None
      | Some el \<Rightarrow>
          (let mediaType = getAttribute el ''media-type'' in
           if \<not> truthy mediaType then
             (let href = getAttribute el ''href'' in
              if \<not> truthy href then None
              else if indexOf (or_else href []) (CHR ''.'') = None then None
              else
                (case map_of supportedCoverFileTypeConv
                        (toLowerCase (extension (or_else href []))) of
                   Some t \<Rightarrow> Some t
                 | None \<Rightarrow> None))
           else if or_else mediaType [] \<in> set supportedCoverMediaTypes then mediaType
           else None))"

record cover =
  path :: "string option"
  mediaType :: "string option"

text \<open>
  The third strategy: \<open>el\<close> is the result of the query for \<^verbatim>\<open>meta[name=cover]\<close>, which
  has just failed the validity test; \<^verbatim>\<open>el.getAttribute('content')\<close> is evaluated on
  it whether or not the query found an element.
\<close>

definition cover_by_content :: "node \<Rightarrow> node option \<Rightarrow> abort + node option" where
  "cover_by_content doc e =
     (case e of
        None \<Rightarrow> Inl TypeError
      | Some el \<Rightarrow>
          (let itemID = getAttribute el ''content'' in
           if truthy itemID then
             (case sel_item_id (or_else itemID []) of
                Inl err \<Rightarrow> Inl err
              | Inr sel \<Rightarrow> Inr (querySelector doc sel))
           else Inr e))"

text \<open>The candidate after the first three strategies.\<close>

definition cover_candidate :: "node \<Rightarrow> abort + node option" where
  "cover_candidate doc =
     (let el = querySelector doc
                 (Sel manifest_ctx ''item'' (Some (AttrIncludes ''properties'' ''cover-image'')))
      in if isValidCoverImageElement el = None then
           (let el = querySelector doc
                       (Sel metadata_ctx ''meta'' (Some (AttrEquals ''name'' ''cover-image'')))
            in if isValidCoverImageElement el = None then
                 (let el = querySelector doc
                             (Sel metadata_ctx ''meta'' (Some (AttrEquals ''name'' ''cover'')))
                  in if isValidCoverImageElement el = None then cover_by_content doc el
                     else Inr el)
               else Inr el)
         else Inr el)"

definition parseCoverImage :: "node \<Rightarrow> abort + cover" where
  "parseCoverImage doc =
     (case cover_candidate doc of
        Inl e \<Rightarrow> Inl e
      | Inr candidate \<Rightarrow>
          (let el = (if isValidCoverImageElement candidate = None then
                       (let el = querySelector doc
                                   (Sel manifest_ctx ''item'' (Some (AttrEquals ''id'' ''cover-image'')))
                        in if isValidCoverImageElement el = None
                           then querySelector doc
                                  (Sel manifest_ctx ''item'' (Some (AttrEquals ''id'' ''cover'')))
                           else el)
                     else candidate)
           in case isValidCoverImageElement el of
                None \<Rightarrow> Inr \<lparr>path = None, mediaType = None\<rparr>
              | Some mt \<Rightarrow>
                  Inr \<lparr>path = (case el of None \<Rightarrow> None | Some x \<Rightarrow> getAttribute x ''href''),
                       mediaType = Some mt\<rparr>))"

subsection \<open>getCoverPage and the constructor\<close>

definition getCoverPage :: "node \<Rightarrow> string option" where
  "getCoverPage doc =
     (case querySelector doc
             (Sel [(Descendant, ''guide''), (Child, ''package'')] ''reference''
                (Some (AttrEquals ''type'' ''cover''))) of
        None \<Rightarrow> None
      | Some el \<Rightarrow> getAttribute el ''href'')"

text \<open>
  The publication date: what \<open>getMeta\<close> returned while that is falsy, a
  \<^verbatim>\<open>Date\<close> object otherwise. \<open>dateValue text\<close> is the time value of
  \<^verbatim>\<open>new Date(text)\<close>, \<open>None\<close> when it is NaN (an invalid date).
\<close>

datatype date_field = NoDate "string option" | DateObject "int option"

record 'l opf =
  titles :: "string \<rightharpoonup> string"
  title :: "string option"
  subtitle :: "string option"
  description :: "string option"
  publicationDate :: date_field
  publisher :: "string option"
  identifiers :: identifiers
  creators :: creators
  authors :: "string list"
  authorsForFiling :: "string list"
  language :: "'l option"
  coverImage :: cover
  copyright :: "string option"
  coverPage :: "string option"
  spine :: "spine option"

text \<open>Sequencing: an exception ends the constructor.\<close>

definition and_then :: "abort + 'a \<Rightarrow> ('a \<Rightarrow> abort + 'b) \<Rightarrow> abort + 'b" where
  "and_then r f = (case r of Inl e \<Rightarrow> Inl e | Inr x \<Rightarrow> f x)"

definition OPF ::
  "(string \<Rightarrow> string) \<Rightarrow> (string \<Rightarrow> bool) \<Rightarrow> (string \<Rightarrow> 'l) \<Rightarrow> (string \<Rightarrow> int option) \<Rightarrow> node
     \<Rightarrow> abort + 'l opf" where
  "OPF formatISBN validateISBN parseLanguage dateValue doc =
     and_then (getTitles doc) (\<lambda>the_titles.
     and_then (getMeta doc ''dc:description'') (\<lambda>the_description.
     and_then (getMeta doc ''dc:date'') (\<lambda>date_text.
     and_then (getMeta doc ''dc:publisher'') (\<lambda>the_publisher.
     and_then (parseIdentifiers formatISBN validateISBN doc) (\<lambda>the_identifiers.
     and_then (parseCreators doc) (\<lambda>the_creators.
     and_then (getMeta doc ''dc:language'') (\<lambda>lang.
     and_then (parseCoverImage doc) (\<lambda>the_cover.
     and_then (getMeta doc ''dc:rights'') (\<lambda>the_rights.
       Inr \<lparr>titles = the_titles,
            title = the_titles ''main'',
            subtitle = the_titles ''subtitle'',
            description = the_description,
            publicationDate =
              (if truthy date_text then DateObject (dateValue (or_else date_text []))
               else NoDate date_text),
            publisher = the_publisher,
            identifiers = the_identifiers,
            creators = the_creators,
            authors = getAuthors the_creators False,
            authorsForFiling = getAuthors the_creators True,
            language = (if truthy lang then Some (parseLanguage (or_else lang [])) else None),
            coverImage = the_cover,
            copyright = the_rights,
            coverPage = getCoverPage doc,
            spine = parseSpine doc\<rparr>)))))))))"

section \<open>Sample collaborators and documents\<close>

text \<open>
  Stand-ins for the two functions of the ISBN library, used where a statement is
  evaluated on a concrete document: \<open>sample_hyphenate\<close> sets off the last digit, and
  \<open>sample_validate\<close> is the check digit rule of ISBN-10 and ISBN-13.
\<close>

definition sample_hyphenate :: "string \<Rightarrow> string" where
  "sample_hyphenate val = (if val = [] then [] else butlast val @ ''-'' @ [last val])"

fun weighted_sum :: "int list \<Rightarrow> string \<Rightarrow> int" where
  "weighted_sum (w # ws) (c # cs) = w * (of_char c - 48) + weighted_sum ws cs"
| "weighted_sum ws cs = 0"

definition sample_validate :: "string \<Rightarrow> bool" where
  "sample_validate val =
     (list_all is_digit val \<and>
      (length val = 10 \<and> weighted_sum [10, 9, 8, 7, 6, 5, 4, 3, 2, 1] val mod 11 = 0 \<or>
       length val = 13 \<and> weighted_sum [1, 3, 1, 3, 1, 3, 1, 3, 1, 3, 1, 3, 1] val mod 10 = 0))"

text \<open>
  Stand-ins for the other two collaborators: \<open>sample_dateValue\<close> is the time value of
  \<^verbatim>\<open>new Date(text)\<close> for a text of four digits, the first of January of that year in
  UTC, and no date for any other text; \<open>sample_parseLanguage\<close> keeps the primary
  subtag of a language tag.
\<close>

definition sample_dateValue :: "string \<Rightarrow> int option" where
  "sample_dateValue text =
     (if length text = 4 \<and> list_all is_digit text then
        (let y = foldl (\<lambda>a c. 10 * a + (of_char c - 48)) 0 text in
         Some (86400000 * (365 * (y - 1970) + (y - 1969) div 4 - (y - 1901) div 100
                           + (y - 1601) div 400)))
      else None)"

definition sample_parseLanguage :: "string \<Rightarrow> string" where
  "sample_parseLanguage tag = takeWhile (\<lambda>c. c \<noteq> CHR ''-'') tag"

text \<open>A package without any cover: no manifest item and no meta element names one.\<close>

definition plain_doc :: node where
  "plain_doc =
     Element ''package'' [(''unique-identifier'', ''bookid'')]
       [Element ''metadata'' []
          [Element ''dc:title'' [] [Text ''Foo'']],
        Element ''manifest'' []
          [Element ''item'' [(''id'', ''ch1''), (''href'', ''ch1.xhtml''),
                             (''media-type'', ''application/xhtml+xml'')] []],
        Element ''spine'' [] [Element ''itemref'' [(''idref'', ''ch1'')] []]]"

text \<open>
  Two identifiers classified by the ONIX code list: ten digits under the code 15
  (ISBN-13), three digits under the code 2 (ISBN-10).
\<close>

definition pub_id_el :: node where
  "pub_id_el = Element ''dc:identifier'' [(''id'', ''pub-id'')] [Text ''0-330-32002-5'']"

definition onix_doc :: node where
  "onix_doc =
     Element ''package'' [(''unique-identifier'', ''bookid'')]
       [Element ''metadata'' []
          [pub_id_el,
           Element ''meta'' [(''refines'', ''#pub-id''), (''property'', ''identifier-type''),
                             (''scheme'', ''onix:codelist5'')] [Text ''15''],
           Element ''dc:identifier'' [(''id'', ''short'')] [Text ''123''],
           Element ''meta'' [(''refines'', ''#short''), (''property'', ''identifier-type''),
                             (''scheme'', ''onix:codelist5'')] [Text ''2'']]]"

text \<open>A package whose unique identifier is the only identifier.\<close>

definition bookid_el :: "string \<Rightarrow> node" where
  "bookid_el uuid = Element ''dc:identifier'' [(''id'', ''bookid'')] [Text uuid]"

definition uuid_doc :: "string \<Rightarrow> node" where
  "uuid_doc uuid =
     Element ''package'' [(''unique-identifier'', ''bookid'')]
       [Element ''metadata'' [] [bookid_el uuid]]"

text \<open>
  The spine of the specification's example: the itemref \<^verbatim>\<open>a\<close> is not linear, and
  the manifest maps \<^verbatim>\<open>a\<close> to \<^verbatim>\<open>x.html\<close> and \<^verbatim>\<open>b\<close> to \<^verbatim>\<open>y.html\<close>.
\<close>

definition spine_doc :: node where
  "spine_doc =
     Element ''package'' []
       [Element ''manifest'' []
          [Element ''item'' [(''id'', ''a''), (''href'', ''x.html'')] [],
           Element ''item'' [(''id'', ''b''), (''href'', ''y.html'')] []],
        Element ''spine'' [(''toc'', ''ncx'')]
          [Element ''itemref'' [(''idref'', ''a''), (''linear'', ''no'')] [],
           Element ''itemref'' [(''idref'', ''b'')] []]]"

text \<open>
  A spine whose \<^verbatim>\<open>page-progression-direction\<close> is present and empty, with an
  itemref whose idref names no manifest item.
\<close>

definition odd_spine_el :: node where
  "odd_spine_el =
     Element ''spine'' [(''page-progression-direction'', [])]
       [Element ''itemref'' [(''idref'', ''constructor'')] []]"

definition odd_spine_doc :: node where
  "odd_spine_doc = Element ''package'' [] [Element ''manifest'' [] [], odd_spine_el]"

text \<open>
  The titles of the specification's example: an untyped title and a title refined to the
  type \<^verbatim>\<open>subtitle\<close>.
\<close>

definition title_foo :: node where
  "title_foo = Element ''dc:title'' [] [Text ''Foo'']"

definition title_bar :: node where
  "title_bar = Element ''dc:title'' [(''id'', ''t2'')] [Text ''Bar'']"

definition titles_doc :: node where
  "titles_doc =
     Element ''package'' []
       [Element ''metadata'' []
          [title_foo, title_bar,
           Element ''meta'' [(''refines'', ''#t2''), (''property'', ''title-type'')]
             [Text ''subtitle'']]]"

text \<open>An untyped title followed by a title refined to the type \<^verbatim>\<open>main\<close>.\<close>

definition first_title :: node where
  "first_title = Element ''dc:title'' [] [Text ''First'']"

definition pub_title :: node where
  "pub_title = Element ''dc:title'' [(''id'', ''pub-title'')] [Text ''Title'']"

definition explicit_main_doc :: node where
  "explicit_main_doc =
     Element ''package'' []
       [Element ''metadata'' []
          [first_title, pub_title,
           Element ''meta'' [(''refines'', ''#pub-title''), (''property'', ''title-type'')]
             [Text ''main'']]]"

text \<open>A package without a title, and one whose first title is empty.\<close>

definition untitled_doc :: node where
  "untitled_doc = Element ''package'' [] [Element ''metadata'' [] []]"

definition empty_title_doc :: node where
  "empty_title_doc =
     Element ''package'' []
       [Element ''metadata'' []
          [Element ''dc:title'' [] [], Element ''dc:title'' [] [Text ''Foo'']]]"

text \<open>
  The creator of the specification's example, with no role and no refinement, and the
  creator set \<open>parseCreators\<close> builds from it.
\<close>

definition jane_doc :: node where
  "jane_doc =
     Element ''package'' []
       [Element ''metadata'' [] [Element ''dc:creator'' [(''id'', ''c1'')] [Text ''Jane Doe'']]]"

definition jane_creators :: creators where
  "jane_creators =
     [(''aut'', [\<lparr>creator_name = ''Jane Doe'', creator_role = ''unknown'',
                  props = Map.empty(''id'' \<mapsto> ''c1'')\<rparr>])]"

text \<open>A creator whose attribute \<^verbatim>\<open>for-filing\<close> is present and empty.\<close>

definition empty_filing_doc :: node where
  "empty_filing_doc =
     Element ''package'' []
       [Element ''metadata'' []
          [Element ''dc:creator'' [(''for-filing'', [])] [Text ''Jane Doe'']]]"

definition empty_filing_creators :: creators where
  "empty_filing_creators =
     [(''aut'', [\<lparr>creator_name = ''Jane Doe'', creator_role = ''unknown'',
                  props = Map.empty(''for-filing'' \<mapsto> [])\<rparr>])]"

text \<open>Two creators, the second one refined to come first.\<close>

definition seq_doc :: node where
  "seq_doc =
     Element ''package'' []
       [Element ''metadata'' []
          [Element ''dc:creator'' [(''id'', ''c1'')] [Text ''Ann Lee''],
           Element ''meta'' [(''refines'', ''#c1''), (''property'', ''display-seq'')] [Text ''2''],
           Element ''dc:creator'' [(''id'', ''c2'')] [Text ''Bob Ray''],
           Element ''meta'' [(''refines'', ''#c2''), (''property'', ''display-seq'')] [Text ''1'']]]"

definition seq_authors :: "creator list" where
  "seq_authors =
     [\<lparr>creator_name = ''Bob Ray'', creator_role = ''unknown'',
       props = Map.empty(''id'' \<mapsto> ''c2'', ''display-seq'' \<mapsto> ''1'')\<rparr>,
      \<lparr>creator_name = ''Ann Lee'', creator_role = ''unknown'',
       props = Map.empty(''id'' \<mapsto> ''c1'', ''display-seq'' \<mapsto> ''2'')\<rparr>]"

definition seq_creators :: creators where
  "seq_creators = [(''aut'', seq_authors)]"

text \<open>Two creators whose text ends, or begins, with a space.\<close>

definition padded_doc :: node where
  "padded_doc =
     Element ''package'' []
       [Element ''metadata'' []
          [Element ''dc:creator'' [] [Text ''Jane Doe ''],
           Element ''dc:creator'' [] [Text '' Solo'']]]"

definition padded_creators :: creators where
  "padded_creators =
     [(''aut'', [\<lparr>creator_name = ''Jane Doe '', creator_role = ''unknown'', props = Map.empty\<rparr>,
                \<lparr>creator_name = '' Solo'', creator_role = ''unknown'', props = Map.empty\<rparr>])]"

text \<open>A package with a date and a cover, on which the constructor returns.\<close>

definition dated_doc :: "string \<Rightarrow> node" where
  "dated_doc date =
     Element ''package'' [(''unique-identifier'', ''bookid'')]
       [Element ''metadata'' []
          [Element ''dc:title'' [] [Text ''Foo''],
           Element ''dc:date'' [] [Text date],
           Element ''meta'' [(''name'', ''cover''), (''content'', ''cover-img'')] []],
        Element ''manifest'' []
          [Element ''item'' [(''id'', ''cover-img''), (''href'', ''cover.jpg''),
                             (''media-type'', ''image/jpeg'')] []]]"

text \<open>
  An identifier whose \<^verbatim>\<open>id\<close> has a full stop, and an identifier refined by a meta
  without scheme whose property is \<^verbatim>\<open>id\<close>.
\<close>

definition dotted_id_el :: node where
  "dotted_id_el = Element ''dc:identifier'' [(''id'', ''isbn.13'')] [Text ''9780741014559'']"

definition dotted_id_doc :: node where
  "dotted_id_doc = Element ''package'' [] [Element ''metadata'' [] [dotted_id_el]]"

definition foo_el :: node where
  "foo_el = Element ''dc:identifier'' [(''id'', ''foo'')] [Text ''txt'']"

definition overwritten_doc :: node where
  "overwritten_doc =
     Element ''package'' []
       [Element ''metadata'' []
          [foo_el, Element ''meta'' [(''refines'', ''#foo''), (''property'', ''id'')] [Text ''bar'']]]"

section \<open>Notions used in the statements\<close>

text \<open>The value an identifier set holds under a key, when the resolver returned one.\<close>

definition identifier_at :: "abort + identifiers \<Rightarrow> idkey \<Rightarrow> idval option" where
  "identifier_at r k = (case r of Inl e \<Rightarrow> None | Inr obj \<Rightarrow> obj k)"

text \<open>
  The href an itemref contributes to the spine: none when it is not linear, when it has
  no idref, or when its idref is no key of the manifest map.
\<close>

definition linear_href :: "(string \<rightharpoonup> string) \<Rightarrow> node \<Rightarrow> string option" where
  "linear_href items el =
     (if getAttribute el ''linear'' = Some ''no'' then None
      else (case getAttribute el ''idref'' of None \<Rightarrow> None | Some r \<Rightarrow> items r))"

text \<open>The idref of the itemref is not the name of a member of \<^verbatim>\<open>Object.prototype\<close>.\<close>

definition plain_idref :: "node \<Rightarrow> bool" where
  "plain_idref el = (or_else (getAttribute el ''idref'') [] \<notin> set object_prototype_members)"

text \<open>No key and no value of a manifest map is empty.\<close>

definition manifest_ok :: "(string \<rightharpoonup> string) \<Rightarrow> bool" where
  "manifest_ok obj = (obj [] = None \<and> (\<forall>k. obj k \<noteq> Some []))"

text \<open>
  The \<^verbatim>\<open>dc:title\<close> elements of a document, and the title type of one of them: the
  member \<^verbatim>\<open>title-type\<close> of its flattened view when that is truthy. A title is
  untyped when it has none.
\<close>

definition dc_titles :: "node \<Rightarrow> node list" where
  "dc_titles doc =
     filter (\<lambda>el. tagName el = ''dc:title'') (querySelectorAll doc (Sel metadata_ctx ''title'' None))"

definition title_type :: "node \<Rightarrow> node \<Rightarrow> string option" where
  "title_type doc el =
     (case refineMeta_flat doc el True of
        Inl e \<Rightarrow> None
      | Inr v \<Rightarrow> if truthy (v ''title-type'') then v ''title-type'' else None)"

definition untyped :: "node \<Rightarrow> node \<Rightarrow> bool" where
  "untyped doc el = (title_type doc el = None)"

definition main_typed :: "node \<Rightarrow> node \<Rightarrow> bool" where
  "main_typed doc el = (title_type doc el = Some ''main'')"

text \<open>
  The texts that compete for the entry \<^verbatim>\<open>main\<close>: the text of the last title of type
  \<^verbatim>\<open>main\<close>, if there is one, and the texts of the untyped titles after it. The entry
  is the first of them that is not empty.
\<close>

fun main_texts :: "node \<Rightarrow> node list \<Rightarrow> string list \<Rightarrow> string list" where
  "main_texts doc [] L = L"
| "main_texts doc (el # els) L =
     (if untyped doc el then main_texts doc els (L @ [textContent el])
      else if main_typed doc el then main_texts doc els [textContent el]
      else main_texts doc els L)"

definition first_nonempty :: "string list \<Rightarrow> string" where
  "first_nonempty L = (case filter (\<lambda>t. t \<noteq> []) L of [] \<Rightarrow> [] | t # ts \<Rightarrow> t)"

definition main_of :: "string list \<Rightarrow> string option" where
  "main_of L = (if L = [] then None else Some (first_nonempty L))"

text \<open>
  A list of creators is in display order when every sequence number
  (\<^verbatim>\<open>parseInt(a['display-seq']) || 0\<close>) is read and none is greater than the next.
\<close>

definition in_display_order :: "creator list \<Rightarrow> bool" where
  "in_display_order cs = (case with_seq cs of Inl e \<Rightarrow> False | Inr r \<Rightarrow> sorted (map fst r))"

text \<open>
  The name \<open>getAuthors\<close> files an author under: the member \<^verbatim>\<open>for-filing\<close> when
  it is present and not empty, the name derived from the display name otherwise.
\<close>

definition filing_form :: "creator \<Rightarrow> string" where
  "filing_form a =
     (case props a ''for-filing'' of
        None \<Rightarrow> filing_name (creator_name a)
      | Some f \<Rightarrow> if f = [] then filing_name (creator_name a) else f)"

text \<open>
  A display name written as words with white space between them: \<open>weave ts ss\<close> is
  the words \<open>ts\<close> with the gaps \<open>ss\<close> in between. A word is not empty and has no
  white space; a gap is not empty and is white space only.
\<close>

definition word :: "string \<Rightarrow> bool" where
  "word t = (t \<noteq> [] \<and> list_all (\<lambda>c. \<not> is_space c) t)"

definition gap :: "string \<Rightarrow> bool" where
  "gap s = (s \<noteq> [] \<and> list_all is_space s)"

fun weave :: "string list \<Rightarrow> string list \<Rightarrow> string" where
  "weave (t # u # ts) (s # ss) = t @ s @ weave (u # ts) ss"
| "weave (t # ts) ss = t"
| "weave [] ss = []"

text \<open>The \<^verbatim>\<open>dc:date\<close> elements of a document.\<close>

definition dc_dates :: "node \<Rightarrow> node list" where
  "dc_dates doc =
     filter (\<lambda>el. tagName el = ''dc:date'') (querySelectorAll doc (Sel metadata_ctx ''date'' None))"

text \<open>
  The element's own attributes as the first loop of \<open>refineMeta\<close> collects them, and
  the key an attribute name is collected under.
\<close>

definition own_view :: "node \<Rightarrow> bool \<Rightarrow> (string \<rightharpoonup> string)" where
  "own_view el dropSchemes = own_attributes dropSchemes el (getAttributeNames el) Map.empty"

definition attr_key :: "bool \<Rightarrow> string \<Rightarrow> string" where
  "attr_key dropSchemes a = (if dropSchemes then strip_scheme a else a)"

section \<open>Properties\<close>

subsection \<open>Evaluation\<close>

text \<open>The definitions a statement about a concrete document is evaluated with.\<close>

lemmas string_defs = is_digit_def is_space_def is_upper_def is_lower_def line_terminator_def
  lower_char_def upper_char_def toLowerCase_def toUpperCase_def localName_def css_space_def
  name_start_def name_char_def css_ident_def strip_scheme_def extension_def Let_def

lemmas query_defs = querySelector_def querySelectorAll_def manifest_ctx_def metadata_ctx_def
  sel_metadata_def sel_refines_def sel_item_id_def

lemmas object_defs = js_get_def put_string_def truthy_def or_else_def truthy_val_def
  object_prototype_members_def

lemmas refine_defs = refineMeta_flat_def refineMeta_grouped_def refineMeta_def

lemmas identifier_defs = parseIdentifiers_def identifier_step_def note_uuid_def note_uri_def
  old_isbn_def onix_branch_def isbn_id_branch_def uuid_fallback_def setISBN_def
  onixCodeList5_def isbn_prefixed_def getMetas_def

lemmas sample_defs = sample_hyphenate_def sample_validate_def

lemmas spine_defs = parseSpine_def parseManifest_def

lemmas title_defs = getTitles_def getMetas_def

lemmas creator_defs = parseCreators_def getMetas_def sort_creators_def parseInt_or_0_def
  push_creator_def array_index_def
  getAuthors_def filing_name_def

lemmas cover_defs = parseCoverImage_def cover_candidate_def cover_by_content_def
  isValidCoverImageElement_def supportedCoverMediaTypes_def supportedCoverFileTypeConv_def

lemmas opf_defs = OPF_def and_then_def getMeta_def getCoverPage_def

subsection \<open>Strings\<close>

lemma digits_only_filter: "digits_only s = filter is_digit s"
  by (induction s) simp_all

subsection \<open>The ISBN normalization rule\<close>

text \<open>
  C2. \<open>setISBN\<close> strips every character of the text that is no digit. When exactly ten
  digits remain it stores the formatted digits under \<^verbatim>\<open>ISBN-10\<close>, when exactly
  thirteen remain under \<^verbatim>\<open>ISBN-13\<close>, and for any other count it returns the
  identifier set as it was; it never raises.
\<close>

theorem setISBN_normalizes:
  "(length (filter is_digit text) = 10 \<longrightarrow>
      setISBN formatISBN obj text
        = obj(Key ''ISBN-10'' \<mapsto> Str (formatISBN (filter is_digit text)))) \<and>
   (length (filter is_digit text) = 13 \<longrightarrow>
      setISBN formatISBN obj text
        = obj(Key ''ISBN-13'' \<mapsto> Str (formatISBN (filter is_digit text)))) \<and>
   (length (filter is_digit text) \<noteq> 10 \<and> length (filter is_digit text) \<noteq> 13 \<longrightarrow>
      setISBN formatISBN obj text = obj)"
  by (simp add: setISBN_def digits_only_filter Let_def)

theorem setISBN_normalizes_witness:
  "length (filter is_digit ''0-330-32002-5'') = 10 \<and>
   setISBN sample_hyphenate Map.empty ''0-330-32002-5'' (Key ''ISBN-10'')
     = Some (Str ''033032002-5'') \<and>
   length (filter is_digit ''urn:isbn:9780741014559'') = 13 \<and>
   setISBN sample_hyphenate Map.empty ''urn:isbn:9780741014559'' (Key ''ISBN-13'')
     = Some (Str ''978074101455-9'') \<and>
   length (filter is_digit ''8ad7cb26-947b'') \<noteq> 10 \<and>
   length (filter is_digit ''8ad7cb26-947b'') \<noteq> 13 \<and>
   setISBN sample_hyphenate Map.empty ''8ad7cb26-947b'' = Map.empty"
  using setISBN_normalizes [of "''0-330-32002-5''" sample_hyphenate Map.empty]
    setISBN_normalizes [of "''urn:isbn:9780741014559''" sample_hyphenate Map.empty]
    setISBN_normalizes [of "''8ad7cb26-947b''" sample_hyphenate Map.empty]
  by (simp add: is_digit_def sample_hyphenate_def)

subsection \<open>The namespaced tag query\<close>

lemma indexOf_append: "c \<notin> set p \<Longrightarrow> indexOf (p @ c # r) c = Some (length p)"
  by (induction p) auto

lemma indexOf_Some:
  "indexOf s c = Some i \<Longrightarrow> \<exists>p r. s = p @ c # r \<and> c \<notin> set p \<and> length p = i"
proof (induction s arbitrary: i)
  case Nil
  then show ?case by simp
next
  case (Cons d ds)
  show ?case
  proof (cases "d = c")
    case True
    with Cons.prems have "i = 0" by simp
    with True show ?thesis by (intro exI [of _ "[]"] exI [of _ ds]) simp
  next
    case False
    with Cons.prems obtain j where j: "indexOf ds c = Some j" "i = Suc j" by auto
    from Cons.IH [OF j(1)] obtain p r where "ds = p @ c # r" "c \<notin> set p" "length p = j"
      by blast
    with False j show ?thesis by (intro exI [of _ "d # p"] exI [of _ r]) simp
  qed
qed

text \<open>
  C7, as the source has it. For a tag name whose first colon is its last character, a
  prefix without a colon followed by the colon (\<^verbatim>\<open>dc:\<close>), \<open>getMetas\<close> returns
  \<^verbatim>\<open>null\<close> on every document: no query is made and nothing is raised, and the value
  is \<^verbatim>\<open>null\<close> and not an empty list. These are the only names on which it returns
  \<^verbatim>\<open>null\<close>.
\<close>

theorem getMetas_empty_local_part:
  "(CHR '':'' \<notin> set prefix \<longrightarrow> getMetas doc (prefix @ '':'') = Inr None) \<and>
   (getMetas doc tag = Inr None \<longrightarrow> (\<exists>p. CHR '':'' \<notin> set p \<and> tag = p @ '':''))"
proof (intro conjI impI)
  assume "CHR '':'' \<notin> set prefix"
  then show "getMetas doc (prefix @ '':'') = Inr None"
    by (simp add: getMetas_def indexOf_append)
next
  assume "getMetas doc tag = Inr None"
  then obtain i where i: "indexOf tag (CHR '':'') = Some i" "length tag \<le> Suc i"
    by (auto simp: getMetas_def split: option.splits sum.splits if_splits)
  from indexOf_Some [OF i(1)] obtain p r where
    "tag = p @ CHR '':'' # r" "CHR '':'' \<notin> set p" "length p = i"
    by blast
  with i(2) show "\<exists>p. CHR '':'' \<notin> set p \<and> tag = p @ '':''" by auto
qed

theorem getMetas_empty_local_part_witness:
  "CHR '':'' \<notin> set ''dc'' \<and> getMetas plain_doc ''dc:'' = Inr None \<and>
   (\<exists>p. CHR '':'' \<notin> set p \<and> ''dc:'' = p @ '':'')"
  using getMetas_empty_local_part [of "''dc''" plain_doc "''dc:''"] by simp

text \<open>\<open>getMeta\<close> reads the length of that result, and raises.\<close>

lemma getMeta_empty_local_part:
  "CHR '':'' \<notin> set prefix \<Longrightarrow> getMeta doc (prefix @ '':'') = Inl TypeError"
  by (simp add: getMeta_def getMetas_def indexOf_append)

text \<open>
  A name that ends in a colon after an earlier colon reaches the query with its rest,
  which ends in that colon: written with name characters and colons, it is an
  ill-formed selector, and \<open>getMetas\<close> raises.
\<close>

lemma getMetas_second_colon:
  assumes "CHR '':'' \<notin> set prefix" and "list_all (\<lambda>c. name_char c \<or> c = CHR '':'') rest"
  shows "getMetas doc (prefix @ '':'' @ rest @ '':'') = Inl SyntaxError"
proof -
  have "\<not> css_ident (rest @ '':'')"
    by (simp add: css_ident_def name_char_def name_start_def is_upper_def is_lower_def
        is_digit_def)
  then show ?thesis
    using assms by (simp add: getMetas_def indexOf_append sel_metadata_def)
qed

text \<open>
  The claim C7 fails on \<open>plain_doc\<close>. For \<^verbatim>\<open>dc:\<close> the result is \<^verbatim>\<open>null\<close>, which is
  not the empty result a name without any match has (\<^verbatim>\<open>dc:nothing\<close>): \<open>getMeta\<close>
  returns on the one and raises on the other. And \<^verbatim>\<open>a:b:\<close>, which ends in a colon
  with no local part as well, has \<open>getMetas\<close> itself raise.
\<close>

theorem getMetas_counterexample:
  "getMetas plain_doc ''dc:'' = Inr None \<and>
   getMetas plain_doc ''dc:nothing'' = Inr (Some []) \<and>
   getMeta plain_doc ''dc:nothing'' = Inr None \<and>
   getMeta plain_doc ''dc:'' = Inl TypeError \<and>
   getMetas plain_doc ''a:b:'' = Inl SyntaxError"
  by (simp add: plain_doc_def getMeta_def getMetas_def query_defs string_defs)

text \<open>
  A qualified name with a local part reaches the query: the result is a list, the
  elements of that local name whose \<^verbatim>\<open>tagName\<close> is the qualified name.
\<close>

lemma getMetas_qualified:
  assumes "CHR '':'' \<notin> set prefix" and "css_ident local"
  shows "getMetas doc (prefix @ '':'' @ local)
           = Inr (Some (filter (\<lambda>el. tagName el = prefix @ '':'' @ local)
                          (querySelectorAll doc (Sel metadata_ctx local None))))"
proof -
  have "local \<noteq> []" using assms(2) by (auto simp: css_ident_def)
  then show ?thesis
    using assms by (simp add: getMetas_def indexOf_append sel_metadata_def)
qed

subsection \<open>The cover resolver\<close>

text \<open>
  When the first two strategies find nothing valid and the document has no
  \<^verbatim>\<open>meta[name=cover]\<close>, the third strategy reads \<^verbatim>\<open>content\<close> from
  \<^verbatim>\<open>null\<close>.
\<close>

lemma parseCoverImage_raises:
  assumes "isValidCoverImageElement (querySelector doc
             (Sel manifest_ctx ''item'' (Some (AttrIncludes ''properties'' ''cover-image'')))) = None"
    and "isValidCoverImageElement (querySelector doc
             (Sel metadata_ctx ''meta'' (Some (AttrEquals ''name'' ''cover-image'')))) = None"
    and "querySelector doc (Sel metadata_ctx ''meta'' (Some (AttrEquals ''name'' ''cover''))) = None"
  shows "parseCoverImage doc = Inl TypeError"
  using assms
  by (simp add: parseCoverImage_def cover_candidate_def cover_by_content_def
      isValidCoverImageElement_def)

text \<open>
  C1. The claim: \<open>parseCoverImage\<close> never raises, and returns the empty descriptor when
  no strategy yields a valid element. On the package \<open>plain_doc\<close>, which has no cover
  at all, the source raises a \<^verbatim>\<open>TypeError\<close> instead of returning the empty
  descriptor.
\<close>

theorem parseCoverImage_plain_doc_raises:
  "parseCoverImage plain_doc = Inl TypeError"
  by (simp add: parseCoverImage_def cover_candidate_def cover_by_content_def plain_doc_def
      query_defs isValidCoverImageElement_def string_defs)

subsection \<open>The identifier resolver\<close>

lemma onix_code_nonempty: "map_of onixCodeList5 code = Some label \<Longrightarrow> code \<noteq> []"
  by (auto simp: onixCodeList5_def)

lemma onix_own_label:
  "map_of onixCodeList5 code = Some label \<Longrightarrow> js_get (map_of onixCodeList5) code = Own label"
  by (simp add: js_get_def)

text \<open>
  C3, as the source has it. For a \<^verbatim>\<open>dc:identifier\<close> that reaches the ONIX branch with
  a code whose label is \<^verbatim>\<open>ISBN-10\<close> or \<^verbatim>\<open>ISBN-13\<close>, the round of the loop
  stores, under that label, \<open>formatISBN\<close> of the digits of the element's text; the other
  keys are as the UUID and URI tests left them. The key is the label of the code and
  the value is stored whatever the number of digits.
\<close>

theorem onix_isbn_stored_under_label:
  assumes "\<not> old_isbn el"
    and "refineMeta_grouped doc el False = Inr attrs"
    and "attrs ''onix:codelist5'' = Some grp"
    and "grp ''identifier-type'' = Some code"
    and "map_of onixCodeList5 code = Some label"
    and "label = ''ISBN-10'' \<or> label = ''ISBN-13''"
    and "note_uri el (note_uuid epubID el obj) = Inr obj'"
  shows "identifier_step formatISBN doc epubID obj el
           = Inr (obj'(Key label \<mapsto> Str (formatISBN (filter is_digit (textContent el)))))"
proof -
  have "code \<noteq> []" using assms(5) by (rule onix_code_nonempty)
  then have "truthy (grp ''identifier-type'')" "or_else (grp ''identifier-type'') [] = code"
    using assms(4) by (simp_all add: truthy_def or_else_def)
  then have "onix_branch formatISBN grp el obj'
               = obj'(Key label \<mapsto> Str (formatISBN (digits_only (textContent el))))"
    using assms(5,6) by (auto simp: onix_branch_def onix_own_label)
  then show ?thesis
    using assms(1,2,3,7) by (simp add: identifier_step_def digits_only_filter)
qed

theorem onix_isbn_stored_under_label_witness:
  "\<not> old_isbn pub_id_el \<and>
   refineMeta_grouped onix_doc pub_id_el False
     = Inr (Map.empty(''noScheme'' \<mapsto> Map.empty(''id'' \<mapsto> ''pub-id''),
                      ''onix:codelist5'' \<mapsto> Map.empty(''identifier-type'' \<mapsto> ''15''))) \<and>
   map_of onixCodeList5 ''15'' = Some ''ISBN-13'' \<and>
   note_uri pub_id_el (note_uuid (Some ''bookid'') pub_id_el Map.empty) = Inr Map.empty \<and>
   identifier_step sample_hyphenate onix_doc (Some ''bookid'') Map.empty pub_id_el
     = Inr (Map.empty(Key ''ISBN-13'' \<mapsto> Str ''033032002-5''))"
proof -
  have a: "\<not> old_isbn pub_id_el"
    by (simp add: old_isbn_def pub_id_el_def object_defs)
  have b: "refineMeta_grouped onix_doc pub_id_el False
     = Inr (Map.empty(''noScheme'' \<mapsto> Map.empty(''id'' \<mapsto> ''pub-id''),
                      ''onix:codelist5'' \<mapsto> Map.empty(''identifier-type'' \<mapsto> ''15'')))"
    by (simp add: refine_defs onix_doc_def pub_id_el_def object_defs query_defs string_defs)
  have c: "map_of onixCodeList5 ''15'' = Some ''ISBN-13''"
    by (simp add: onixCodeList5_def)
  have d: "note_uri pub_id_el (note_uuid (Some ''bookid'') pub_id_el Map.empty) = Inr Map.empty"
    by (simp add: note_uri_def note_uuid_def pub_id_el_def object_defs)
  have e: "filter is_digit (textContent pub_id_el) = ''0330320025''"
    by (simp add: pub_id_el_def is_digit_def)
  show ?thesis
    using a b c d
      onix_isbn_stored_under_label [OF a b _ _ c _ d, of "Map.empty(''identifier-type'' \<mapsto> ''15'')"
        sample_hyphenate]
    by (simp add: e sample_hyphenate_def)
qed

text \<open>
  The claim C3 fails on \<open>onix_doc\<close>: the ten digits labelled with the code 15 are
  stored under \<^verbatim>\<open>ISBN-13\<close>, the key of the label and not of the digit count, and the
  three digits labelled with the code 2 are stored, not discarded.
\<close>

theorem onix_isbn_counterexample:
  "identifier_at (parseIdentifiers sample_hyphenate sample_validate onix_doc) (Key ''ISBN-13'')
     = Some (Str ''033032002-5'') \<and>
   identifier_at (parseIdentifiers sample_hyphenate sample_validate onix_doc) (Key ''ISBN-10'')
     = Some (Str ''12-3'')"
  by (simp add: onix_doc_def pub_id_el_def identifier_at_def identifier_defs refine_defs
      object_defs query_defs string_defs sample_defs)

text \<open>
  C4. When the loop of \<open>parseIdentifiers\<close> has found a UUID and has set neither
  \<^verbatim>\<open>ISBN-10\<close> nor \<^verbatim>\<open>ISBN-13\<close>, the result is decided by the digits of the UUID:
  if they pass \<open>validateISBN\<close> the normalization rule \<open>setISBN\<close> is applied to them, and
  if they fail the identifier set of the loop is returned as it is, without an ISBN key.
\<close>

theorem uuid_fallback_rule:
  assumes "querySelector doc (Sel [] ''package'' None) = Some pkg"
    and "getMetas doc ''dc:identifier'' = Inr (Some els)"
    and "els \<noteq> []"
    and "identifier_loop formatISBN doc (getAttribute pkg ''unique-identifier'') els Map.empty
           = Inr obj"
    and "obj (Key ''UUID'') = Some (Str uuid)"
    and "obj (Key ''ISBN-10'') = None"
    and "obj (Key ''ISBN-13'') = None"
  shows "parseIdentifiers formatISBN validateISBN doc =
           Inr (if validateISBN (filter is_digit uuid)
                then setISBN formatISBN obj (filter is_digit uuid) else obj)"
proof (cases "uuid = []")
  case True
  then show ?thesis using assms
    by (simp add: parseIdentifiers_def uuid_fallback_def truthy_val_def setISBN_def)
next
  case False
  then show ?thesis using assms
    by (simp add: parseIdentifiers_def uuid_fallback_def truthy_val_def digits_only_filter Let_def)
qed

lemma uuid_doc_queries:
  "querySelector (uuid_doc u) (Sel [] ''package'' None) = Some (uuid_doc u)"
  "getMetas (uuid_doc u) ''dc:identifier'' = Inr (Some [bookid_el u])"
  by (simp_all add: uuid_doc_def bookid_el_def getMetas_def query_defs string_defs)

lemma uuid_doc_loop:
  "identifier_loop f (uuid_doc u) (getAttribute (uuid_doc u) ''unique-identifier'')
      [bookid_el u] Map.empty
     = Inr (Map.empty(Key ''UUID'' \<mapsto> Str u))"
  by (simp add: uuid_doc_def bookid_el_def identifier_defs refine_defs object_defs query_defs
      string_defs)

theorem uuid_fallback_rule_witness:
  "querySelector (uuid_doc ''978-1-4302-6572-6'') (Sel [] ''package'' None)
     = Some (uuid_doc ''978-1-4302-6572-6'') \<and>
   getMetas (uuid_doc ''978-1-4302-6572-6'') ''dc:identifier''
     = Inr (Some [bookid_el ''978-1-4302-6572-6'']) \<and>
   identifier_loop sample_hyphenate (uuid_doc ''978-1-4302-6572-6'')
       (getAttribute (uuid_doc ''978-1-4302-6572-6'') ''unique-identifier'')
       [bookid_el ''978-1-4302-6572-6''] Map.empty
     = Inr (Map.empty(Key ''UUID'' \<mapsto> Str ''978-1-4302-6572-6'')) \<and>
   sample_validate (filter is_digit ''978-1-4302-6572-6'') \<and>
   parseIdentifiers sample_hyphenate sample_validate (uuid_doc ''978-1-4302-6572-6'')
     = Inr (Map.empty(Key ''UUID'' \<mapsto> Str ''978-1-4302-6572-6'',
                      Key ''ISBN-13'' \<mapsto> Str ''978143026572-6'')) \<and>
   \<not> sample_validate (filter is_digit ''8ad7cb26-947b-4e7f-89e9-40fd8a4e530a'') \<and>
   parseIdentifiers sample_hyphenate sample_validate
       (uuid_doc ''8ad7cb26-947b-4e7f-89e9-40fd8a4e530a'')
     = Inr (Map.empty(Key ''UUID'' \<mapsto> Str ''8ad7cb26-947b-4e7f-89e9-40fd8a4e530a''))"
proof -
  have ne: "[bookid_el u] \<noteq> []" for u by simp
  have k1: "(Map.empty(Key ''UUID'' \<mapsto> Str u)) (Key ''UUID'') = Some (Str u)" for u by simp
  have k2: "(Map.empty(Key ''UUID'' \<mapsto> Str u)) (Key ''ISBN-10'') = None" for u by simp
  have k3: "(Map.empty(Key ''UUID'' \<mapsto> Str u)) (Key ''ISBN-13'') = None" for u by simp
  have v1: "filter is_digit ''978-1-4302-6572-6'' = ''9781430265726''"
    by (simp add: is_digit_def)
  have v2: "filter is_digit ''8ad7cb26-947b-4e7f-89e9-40fd8a4e530a'' = ''8726947478994084530''"
    by (simp add: is_digit_def)
  have s1: "sample_validate ''9781430265726''"
    by (simp add: sample_validate_def is_digit_def)
  have s2: "\<not> sample_validate ''8726947478994084530''"
    by (simp add: sample_validate_def is_digit_def)
  have r1: "setISBN sample_hyphenate (Map.empty(Key ''UUID'' \<mapsto> Str ''978-1-4302-6572-6''))
              ''9781430265726''
    = Map.empty(Key ''UUID'' \<mapsto> Str ''978-1-4302-6572-6'',
                Key ''ISBN-13'' \<mapsto> Str ''978143026572-6'')"
    by (simp add: setISBN_def is_digit_def sample_hyphenate_def)
  have w1: "parseIdentifiers sample_hyphenate sample_validate (uuid_doc ''978-1-4302-6572-6'')
      = Inr (Map.empty(Key ''UUID'' \<mapsto> Str ''978-1-4302-6572-6'',
                       Key ''ISBN-13'' \<mapsto> Str ''978143026572-6''))"
    using uuid_fallback_rule [where validateISBN = sample_validate,
        OF uuid_doc_queries(1) [of "''978-1-4302-6572-6''"]
           uuid_doc_queries(2) [of "''978-1-4302-6572-6''"] ne
           uuid_doc_loop [of sample_hyphenate "''978-1-4302-6572-6''"] k1 k2 k3]
    unfolding v1 r1 using s1 by simp
  have w2: "parseIdentifiers sample_hyphenate sample_validate
              (uuid_doc ''8ad7cb26-947b-4e7f-89e9-40fd8a4e530a'')
      = Inr (Map.empty(Key ''UUID'' \<mapsto> Str ''8ad7cb26-947b-4e7f-89e9-40fd8a4e530a''))"
    using uuid_fallback_rule [where validateISBN = sample_validate,
        OF uuid_doc_queries(1) [of "''8ad7cb26-947b-4e7f-89e9-40fd8a4e530a''"]
           uuid_doc_queries(2) [of "''8ad7cb26-947b-4e7f-89e9-40fd8a4e530a''"] ne
           uuid_doc_loop [of sample_hyphenate "''8ad7cb26-947b-4e7f-89e9-40fd8a4e530a''"] k1 k2 k3]
    unfolding v2 using s2 by simp
  show ?thesis
    unfolding v1 v2 using w1 w2 s1 s2 uuid_doc_queries uuid_doc_loop by blast
qed

subsection \<open>The manifest and spine resolvers\<close>

lemma manifest_loop_ok: "manifest_ok obj \<Longrightarrow> manifest_ok (manifest_loop els obj)"
proof (induction els arbitrary: obj)
  case Nil
  then show ?case by simp
next
  case (Cons el els)
  have "manifest_ok (put_string obj (or_else (getAttribute el ''id'') []) (or_else (getAttribute el ''href'') []))"
    if "truthy (getAttribute el ''id'')" "truthy (getAttribute el ''href'')"
    using that Cons.prems
    by (auto simp: manifest_ok_def put_string_def truthy_def or_else_def split: option.splits)
  with Cons show ?case by simp
qed

lemma parseManifest_ok: "manifest_ok (parseManifest doc)"
  unfolding parseManifest_def by (rule manifest_loop_ok) (simp add: manifest_ok_def)

text \<open>
  The manifest map: an id is mapped to the href of the last item of that id, among the
  items whose id and href are not empty.
\<close>

lemma manifest_loop_map_of:
  "manifest_loop els obj k =
     (if k = ''__proto__'' then obj k
      else (case map_of (rev (map (\<lambda>el. (or_else (getAttribute el ''id'') [],
                                              or_else (getAttribute el ''href'') []))
                            (filter (\<lambda>el. truthy (getAttribute el ''id'') \<and>
                                          truthy (getAttribute el ''href'')) els))) k of
              None \<Rightarrow> obj k
            | Some href \<Rightarrow> Some href))"
  by (induction els arbitrary: obj) (auto simp: put_string_def split: option.splits)

lemma spine_loop_map_filter:
  assumes "manifest_ok items" and "list_all plain_idref els"
  shows "spine_loop items els acc = acc @ map Href (List.map_filter (linear_href items) els)"
  using assms(2)
proof (induction els arbitrary: acc)
  case Nil
  then show ?case by (simp add: List.map_filter_simps)
next
  case (Cons el els)
  then have plain: "plain_idref el" and rest: "list_all plain_idref els" by simp_all
  note IH = Cons.IH [OF rest]
  show ?case
  proof (cases "getAttribute el ''idref''")
    case None
    then show ?thesis
      by (simp add: IH truthy_def linear_href_def List.map_filter_simps)
  next
    case (Some r)
    show ?thesis
    proof (cases "r = []")
      case True
      with Some assms(1) show ?thesis
        by (simp add: IH truthy_def linear_href_def List.map_filter_simps manifest_ok_def)
    next
      case False
      have get: "js_get items r = (case items r of None \<Rightarrow> Missing | Some v \<Rightarrow> Own v)"
        using plain Some False by (simp add: js_get_def plain_idref_def or_else_def split: option.splits)
      have nonempty: "items r \<noteq> Some []" using assms(1) by (simp add: manifest_ok_def)
      show ?thesis
        using Some False get nonempty
        by (cases "items r")
          (simp_all add: IH truthy_def or_else_def linear_href_def List.map_filter_simps)
    qed
  qed
qed

text \<open>
  C5, as the source has it. For a document whose itemrefs do not name a member of
  \<^verbatim>\<open>Object.prototype\<close>: without a spine element the result is \<^verbatim>\<open>null\<close>;
  otherwise it carries the \<^verbatim>\<open>toc\<close> attribute as it is, the
  \<^verbatim>\<open>page-progression-direction\<close> or \<^verbatim>\<open>ltr\<close> when that is absent or empty, and
  the hrefs of the itemrefs in document order, an itemref being skipped exactly when it
  has no idref, has \<^verbatim>\<open>linear="no"\<close>, or its idref is no key of the manifest map.
\<close>

theorem parseSpine_items:
  assumes "list_all plain_idref
             (querySelectorAll doc (Sel [(Descendant, ''spine''), (Child, ''package'')] ''itemref'' None))"
  shows "parseSpine doc =
           (case querySelector doc (Sel [(Child, ''package'')] ''spine'' None) of
              None \<Rightarrow> None
            | Some spineEl \<Rightarrow>
                Some \<lparr>toc = getAttribute spineEl ''toc'',
                      pageProgressionDirection =
                        (case getAttribute spineEl ''page-progression-direction'' of
                           None \<Rightarrow> ''ltr''
                         | Some d \<Rightarrow> if d = [] then ''ltr'' else d),
                      spine_items =
                        map Href (List.map_filter (linear_href (parseManifest doc))
                          (querySelectorAll doc
                             (Sel [(Descendant, ''spine''), (Child, ''package'')] ''itemref'' None)))\<rparr>)"
  using spine_loop_map_filter [OF parseManifest_ok assms, where acc = "[]"]
  by (simp add: parseSpine_def or_else_def split: option.splits)

theorem parseSpine_items_witness:
  "list_all plain_idref
     (querySelectorAll spine_doc (Sel [(Descendant, ''spine''), (Child, ''package'')] ''itemref'' None)) \<and>
   parseManifest spine_doc ''a'' = Some ''x.html'' \<and>
   parseManifest spine_doc ''b'' = Some ''y.html'' \<and>
   parseSpine spine_doc
     = Some \<lparr>toc = Some ''ncx'', pageProgressionDirection = ''ltr'', spine_items = [Href ''y.html'']\<rparr>"
proof -
  have q: "querySelectorAll spine_doc (Sel [(Descendant, ''spine''), (Child, ''package'')] ''itemref'' None)
     = [Element ''itemref'' [(''idref'', ''a''), (''linear'', ''no'')] [],
        Element ''itemref'' [(''idref'', ''b'')] []]"
    by (simp add: spine_doc_def query_defs string_defs)
  have p: "list_all plain_idref
     (querySelectorAll spine_doc (Sel [(Descendant, ''spine''), (Child, ''package'')] ''itemref'' None))"
    unfolding q by (simp add: plain_idref_def object_defs)
  have m: "parseManifest spine_doc ''a'' = Some ''x.html''" "parseManifest spine_doc ''b'' = Some ''y.html''"
    by (simp_all add: spine_doc_def spine_defs query_defs string_defs object_defs)
  have s: "querySelector spine_doc (Sel [(Child, ''package'')] ''spine'' None)
      = Some (Element ''spine'' [(''toc'', ''ncx'')]
          [Element ''itemref'' [(''idref'', ''a''), (''linear'', ''no'')] [],
           Element ''itemref'' [(''idref'', ''b'')] []])"
    by (simp add: spine_doc_def query_defs string_defs)
  show ?thesis
    using parseSpine_items [OF p] p m
    unfolding q s by (simp add: linear_href_def List.map_filter_simps)
qed

text \<open>
  The claim C5 fails on \<open>odd_spine_doc\<close>: the attribute
  \<^verbatim>\<open>page-progression-direction\<close> is present with the empty value and the result has
  \<^verbatim>\<open>ltr\<close>; the idref \<^verbatim>\<open>constructor\<close> is no key of the manifest map and the
  itemref is not skipped: the read \<^verbatim>\<open>items[idref]\<close> finds the inherited member.
\<close>

theorem parseSpine_counterexample:
  "querySelector odd_spine_doc (Sel [(Child, ''package'')] ''spine'' None) = Some odd_spine_el \<and>
   getAttribute odd_spine_el ''page-progression-direction'' = Some [] \<and>
   parseManifest odd_spine_doc ''constructor'' = None \<and>
   parseSpine odd_spine_doc
     = Some \<lparr>toc = None, pageProgressionDirection = ''ltr'',
             spine_items = [Builtin ''constructor'']\<rparr>"
  by (simp add: odd_spine_doc_def odd_spine_el_def spine_defs query_defs string_defs object_defs)

subsection \<open>The title resolver\<close>

lemma getMetas_dc_title: "getMetas doc ''dc:title'' = Inr (Some (dc_titles doc))"
  by (simp add: getMetas_def dc_titles_def sel_metadata_def string_defs)

lemma filter_head: "filter P L = x # xs \<Longrightarrow> P x"
  by (metis filter_eq_ConsD)

lemma main_of_snoc:
  "main_of (L @ [t]) = (if truthy (main_of L) then main_of L else Some t)"
  by (auto simp: main_of_def first_nonempty_def truthy_def split: list.splits
      dest: filter_head)

lemma titles_loop_main:
  assumes "titles_loop doc els t = Inr t'" and "t ''main'' = main_of L"
  shows "t' ''main'' = main_of (main_texts doc els L)"
  using assms
proof (induction els arbitrary: t L)
  case Nil
  then show ?case by simp
next
  case (Cons el els)
  from Cons.prems(1) obtain v where v: "refineMeta_flat doc el True = Inr v"
    by (cases "refineMeta_flat doc el True") simp_all
  show ?case
  proof (cases "truthy (v ''title-type'')")
    case False
    then have u: "untyped doc el" by (simp add: untyped_def title_type_def v)
    show ?thesis
    proof (cases "truthy (t ''main'')")
      case True
      with False Cons.prems v have "titles_loop doc els t = Inr t'" by simp
      moreover have "t ''main'' = main_of (L @ [textContent el])"
        using True Cons.prems(2) by (simp add: main_of_snoc)
      ultimately show ?thesis using u Cons.IH by simp
    next
      case nt: False
      with False Cons.prems v
      have "titles_loop doc els (t(''main'' \<mapsto> textContent el)) = Inr t'" by simp
      moreover have "(t(''main'' \<mapsto> textContent el)) ''main'' = main_of (L @ [textContent el])"
        using nt Cons.prems(2) by (simp add: main_of_snoc)
      ultimately show ?thesis using u Cons.IH by simp
    qed
  next
    case True
    then obtain tt where tt: "v ''title-type'' = Some tt" "tt \<noteq> []"
      by (auto simp: truthy_def split: option.splits)
    then have ty: "title_type doc el = Some tt" by (simp add: title_type_def v truthy_def)
    from True Cons.prems v tt
    have loop: "titles_loop doc els (put_string t tt (textContent el)) = Inr t'"
      by (simp add: or_else_def)
    show ?thesis
    proof (cases "tt = ''main''")
      case m: True
      have "(put_string t tt (textContent el)) ''main'' = main_of [textContent el]"
        using m by (simp add: put_string_def main_of_def first_nonempty_def)
      with loop Cons.IH have "t' ''main'' = main_of (main_texts doc els [textContent el])"
        by blast
      then show ?thesis using ty m by (simp add: untyped_def main_typed_def)
    next
      case nm: False
      have "(put_string t tt (textContent el)) ''main'' = main_of L"
        using nm Cons.prems(2) by (simp add: put_string_def)
      with loop Cons.IH have "t' ''main'' = main_of (main_texts doc els L)"
        by blast
      then show ?thesis using ty nm by (simp add: untyped_def main_typed_def)
    qed
  qed
qed

lemma getTitles_main:
  assumes "getTitles doc = Inr t"
  shows "t ''main'' = main_of (main_texts doc (dc_titles doc) [])"
proof -
  from assms have "titles_loop doc (dc_titles doc) Map.empty = Inr t"
    by (simp add: getTitles_def getMetas_dc_title)
  then show ?thesis by (rule titles_loop_main) (simp add: main_of_def)
qed

lemma main_texts_append:
  "main_texts doc (xs @ ys) L = main_texts doc ys (main_texts doc xs L)"
  by (induction xs arbitrary: L) simp_all

lemma main_texts_no_main:
  "list_all (\<lambda>el. \<not> main_typed doc el) els \<Longrightarrow>
   main_texts doc els L = L @ map textContent (filter (untyped doc) els)"
  by (induction els arbitrary: L) simp_all

lemma main_texts_none:
  "list_all (\<lambda>el. \<not> untyped doc el \<and> \<not> main_typed doc el) els \<Longrightarrow> main_texts doc els L = L"
  by (induction els arbitrary: L) simp_all

lemma main_texts_nonempty:
  "L \<noteq> [] \<Longrightarrow> main_texts doc els L \<noteq> []"
  by (induction els arbitrary: L) simp_all

lemma main_texts_empty_iff:
  "main_texts doc els [] = [] \<longleftrightarrow> list_all (\<lambda>el. \<not> untyped doc el \<and> \<not> main_typed doc el) els"
proof (induction els)
  case Nil
  then show ?case by simp
next
  case (Cons el els)
  then show ?case by (auto simp: main_texts_nonempty)
qed

lemma first_nonempty_Cons: "t \<noteq> [] \<Longrightarrow> first_nonempty (t # L) = t"
  by (simp add: first_nonempty_def)

lemma first_nonempty_skip:
  "list_all (\<lambda>t. t = []) L \<Longrightarrow> first_nonempty (L @ M) = first_nonempty M"
  by (induction L) (simp_all add: first_nonempty_def)

text \<open>
  C6, as the source has it. When \<open>getTitles\<close> returns, its result has no entry
  \<^verbatim>\<open>main\<close> exactly when no \<^verbatim>\<open>dc:title\<close> is untyped or of type \<^verbatim>\<open>main\<close>.
  The entry is the text of the last title of explicit type \<^verbatim>\<open>main\<close> when that text
  is not empty; and when no title has the explicit type \<^verbatim>\<open>main\<close>, it is the text of
  the first untyped title whose text is not empty.
\<close>

theorem getTitles_main_entry:
  assumes "getTitles doc = Inr t"
  shows "(t ''main'' = None \<longleftrightarrow>
            list_all (\<lambda>el. \<not> untyped doc el \<and> \<not> main_typed doc el) (dc_titles doc)) \<and>
         (\<forall>pre el post.
            dc_titles doc = pre @ el # post \<and> main_typed doc el \<and> textContent el \<noteq> [] \<and>
            list_all (\<lambda>x. \<not> main_typed doc x) post
            \<longrightarrow> t ''main'' = Some (textContent el)) \<and>
         (\<forall>pre el post.
            dc_titles doc = pre @ el # post \<and> list_all (\<lambda>x. \<not> main_typed doc x) (dc_titles doc) \<and>
            untyped doc el \<and> textContent el \<noteq> [] \<and>
            list_all (\<lambda>x. untyped doc x \<longrightarrow> textContent x = []) pre
            \<longrightarrow> t ''main'' = Some (textContent el))"
proof (intro conjI allI impI)
  note m = getTitles_main [OF assms]
  show "t ''main'' = None \<longleftrightarrow>
          list_all (\<lambda>el. \<not> untyped doc el \<and> \<not> main_typed doc el) (dc_titles doc)"
    using m main_texts_empty_iff [of doc "dc_titles doc"] by (simp add: main_of_def)
next
  fix pre el post
  assume a: "dc_titles doc = pre @ el # post \<and> main_typed doc el \<and> textContent el \<noteq> [] \<and>
            list_all (\<lambda>x. \<not> main_typed doc x) post"
  then have nu: "\<not> untyped doc el" by (simp add: untyped_def main_typed_def)
  have "main_texts doc (dc_titles doc) []
          = textContent el # map textContent (filter (untyped doc) post)"
    using a nu by (simp add: main_texts_append main_texts_no_main)
  then show "t ''main'' = Some (textContent el)"
    using a getTitles_main [OF assms] by (simp add: main_of_def first_nonempty_Cons)
next
  fix pre el post
  assume a: "dc_titles doc = pre @ el # post \<and> list_all (\<lambda>x. \<not> main_typed doc x) (dc_titles doc) \<and>
            untyped doc el \<and> textContent el \<noteq> [] \<and>
            list_all (\<lambda>x. untyped doc x \<longrightarrow> textContent x = []) pre"
  then have eq: "dc_titles doc = pre @ el # post"
    and nm: "list_all (\<lambda>x. \<not> main_typed doc x) (dc_titles doc)"
    and u: "untyped doc el" and ne: "textContent el \<noteq> []"
    and pe: "list_all (\<lambda>x. untyped doc x \<longrightarrow> textContent x = []) pre"
    by blast+
  have "main_texts doc (dc_titles doc) []
          = [] @ map textContent (filter (untyped doc) (dc_titles doc))"
    using nm by (rule main_texts_no_main)
  then have "main_texts doc (dc_titles doc) []
          = map textContent (filter (untyped doc) pre)
            @ textContent el # map textContent (filter (untyped doc) post)"
    unfolding eq using u by simp
  moreover have "list_all (\<lambda>t. t = []) (map textContent (filter (untyped doc) pre))"
    using pe by (auto simp: list_all_iff)
  ultimately show "t ''main'' = Some (textContent el)"
    using ne getTitles_main [OF assms]
    by (simp add: main_of_def first_nonempty_skip first_nonempty_Cons)
qed

lemmas title_notions = dc_titles_def title_type_def untyped_def main_typed_def

lemma titles_doc_facts:
  "getTitles titles_doc = Inr (Map.empty(''main'' \<mapsto> ''Foo'', ''subtitle'' \<mapsto> ''Bar''))"
  "dc_titles titles_doc = [title_foo, title_bar]"
  "untyped titles_doc title_foo"
  "title_type titles_doc title_bar = Some ''subtitle''"
  by (simp_all add: titles_doc_def title_foo_def title_bar_def title_defs title_notions
      refine_defs object_defs query_defs string_defs)

lemma explicit_main_doc_facts:
  "getTitles explicit_main_doc = Inr (Map.empty(''main'' \<mapsto> ''Title''))"
  "dc_titles explicit_main_doc = [first_title, pub_title]"
  "untyped explicit_main_doc first_title"
  "main_typed explicit_main_doc pub_title"
  by (simp_all add: explicit_main_doc_def first_title_def pub_title_def title_defs
      title_notions refine_defs object_defs query_defs string_defs)

theorem getTitles_main_entry_witness:
  "getTitles titles_doc = Inr (Map.empty(''main'' \<mapsto> ''Foo'', ''subtitle'' \<mapsto> ''Bar'')) \<and>
   dc_titles titles_doc = [] @ title_foo # [title_bar] \<and>
   untyped titles_doc title_foo \<and> textContent title_foo = ''Foo'' \<and>
   title_type titles_doc title_bar = Some ''subtitle'' \<and>
   (Map.empty(''main'' \<mapsto> ''Foo'', ''subtitle'' \<mapsto> ''Bar'')) ''main'' = Some ''Foo'' \<and>
   getTitles explicit_main_doc = Inr (Map.empty(''main'' \<mapsto> ''Title'')) \<and>
   dc_titles explicit_main_doc = [first_title] @ pub_title # [] \<and>
   main_typed explicit_main_doc pub_title \<and> textContent pub_title = ''Title'' \<and>
   (Map.empty(''main'' \<mapsto> ''Title'')) ''main'' = Some ''Title''"
proof -
  have nm: "list_all (\<lambda>x. \<not> main_typed titles_doc x) (dc_titles titles_doc)"
    using titles_doc_facts by (simp add: main_typed_def untyped_def)
  have a: "(Map.empty(''main'' \<mapsto> ''Foo'', ''subtitle'' \<mapsto> ''Bar'')) ''main''
             = Some (textContent title_foo)"
    using getTitles_main_entry [OF titles_doc_facts(1)] titles_doc_facts(2,3) nm
    by (simp add: title_foo_def)
  have b: "(Map.empty(''main'' \<mapsto> ''Title'')) ''main'' = Some (textContent pub_title)"
    using getTitles_main_entry [OF explicit_main_doc_facts(1)] explicit_main_doc_facts(2,4)
    by (simp add: pub_title_def)
  show ?thesis
    using a b titles_doc_facts explicit_main_doc_facts
    by (simp add: title_foo_def pub_title_def)
qed

text \<open>
  The claim C6 fails on two documents: without any \<^verbatim>\<open>dc:title\<close> the result has no
  entry \<^verbatim>\<open>main\<close>; and when the first untyped title is empty, the entry comes from
  the second.
\<close>

theorem getTitles_counterexample:
  "getTitles untitled_doc = Inr Map.empty \<and>
   dc_titles empty_title_doc
     = [Element ''dc:title'' [] [], Element ''dc:title'' [] [Text ''Foo'']] \<and>
   getTitles empty_title_doc = Inr (Map.empty(''main'' \<mapsto> ''Foo''))"
  by (simp add: untitled_doc_def empty_title_doc_def title_defs title_notions refine_defs
      object_defs query_defs string_defs)

subsection \<open>The creator resolver\<close>

lemma split_ws_nonempty: "split_ws r \<noteq> []"
  by (induction r) (auto split: list.split)

lemma split_ws_word_prefix:
  "list_all (\<lambda>c. \<not> is_space c) t \<Longrightarrow>
   split_ws (t @ r) = (t @ hd (split_ws r)) # tl (split_ws r)"
proof (induction t)
  case Nil
  then show ?case using split_ws_nonempty [of r] by simp
next
  case (Cons c t)
  then show ?case by simp
qed

lemma split_ws_gap_prefix:
  "gap s \<Longrightarrow> r \<noteq> [] \<Longrightarrow> \<not> is_space (hd r) \<Longrightarrow> split_ws (s @ r) = [] # split_ws r"
proof (induction s)
  case Nil
  then show ?case by (simp add: gap_def)
next
  case (Cons c s)
  show ?case
  proof (cases s)
    case Nil
    with Cons.prems show ?thesis by (simp add: gap_def)
  next
    case (Cons d s')
    with Cons.prems have "gap s" by (simp add: gap_def)
    with Cons.IH Cons.prems have "split_ws (s @ r) = [] # split_ws r" by simp
    with Cons Cons.prems show ?thesis by (simp add: gap_def)
  qed
qed

lemma weave_starts:
  assumes "list_all word ts" and "ts \<noteq> []"
  shows "weave ts ss \<noteq> [] \<and> \<not> is_space (hd (weave ts ss))"
proof -
  from assms obtain t ts' where ts: "ts = t # ts'" by (cases ts) auto
  with assms obtain c cs where t: "t = c # cs" "\<not> is_space c"
    by (cases t) (auto simp: word_def)
  have "weave (t # ts') ss = t \<or> (\<exists>r. weave (t # ts') ss = t @ r)"
    by (cases ts'; cases ss) simp_all
  with t ts show ?thesis by auto
qed

lemma split_ws_word: "list_all (\<lambda>c. \<not> is_space c) t \<Longrightarrow> split_ws t = [t]"
  using split_ws_word_prefix [of t "[]"] by simp

lemma split_ws_weave:
  "list_all word ts \<Longrightarrow> list_all gap ss \<Longrightarrow> length ts = Suc (length ss) \<Longrightarrow>
   split_ws (weave ts ss) = ts"
proof (induction ts arbitrary: ss)
  case Nil
  then show ?case by simp
next
  case (Cons t ts)
  then have t: "list_all (\<lambda>c. \<not> is_space c) t" by (simp add: word_def)
  show ?case
  proof (cases ts)
    case Nil
    then show ?thesis using t by (simp add: split_ws_word)
  next
    case (Cons u ts')
    with Cons.prems obtain s ss' where ss: "ss = s # ss'" by (cases ss) auto
    have IH: "split_ws (weave ts ss') = ts"
      using Cons.IH [of ss'] Cons.prems ss by simp
    have st: "weave ts ss' \<noteq> [] \<and> \<not> is_space (hd (weave ts ss'))"
      using Cons.prems Cons by (intro weave_starts) simp_all
    have "split_ws (s @ weave ts ss') = [] # ts"
      using split_ws_gap_prefix [of s "weave ts ss'"] Cons.prems ss st IH by simp
    then show ?thesis
      using split_ws_word_prefix [OF t, of "s @ weave ts ss'"] Cons ss by simp
  qed
qed

lemma authors_loop_map:
  "authors_loop forFiling as ret
     = ret @ map (if forFiling then filing_form else creator_name) as"
  by (induction as arbitrary: ret)
    (auto simp: filing_form_def truthy_def or_else_def split: option.splits)

lemma with_seq_set:
  "with_seq cs = Inr r \<Longrightarrow> (n, c) \<in> set r \<Longrightarrow> parseInt_or_0 (props c ''display-seq'') = Inr n"
  by (induction cs arbitrary: r) (auto split: sum.splits)

lemma with_seq_map_snd:
  "\<forall>(n, c) \<in> set L. parseInt_or_0 (props c ''display-seq'') = Inr n \<Longrightarrow>
   with_seq (map snd L) = Inr L"
  by (induction L) auto

text \<open>
  A role that is an array index is enumerated before the names, whenever it was added:
  with the roles \<^verbatim>\<open>aut\<close> and then \<^verbatim>\<open>7\<close> the set lists \<^verbatim>\<open>7\<close> first.
\<close>

lemma push_creator_index_first:
  "map fst (push_creator ''7'' c (push_creator ''aut'' a [])) = [''7'', ''aut'']"
  by (simp add: push_creator_def array_index_def is_digit_def)

text \<open>What \<open>sort_creators\<close> returns is in display order.\<close>

lemma sort_creators_sorted:
  assumes "sort_creators cs = Inr cs'"
  shows "in_display_order cs'"
proof -
  from assms obtain r where r: "with_seq cs = Inr r" and cs': "cs' = map snd (sort_key fst r)"
    by (auto simp: sort_creators_def split: sum.splits)
  have "with_seq (map snd (sort_key fst r)) = Inr (sort_key fst r)"
    using with_seq_set [OF r] by (intro with_seq_map_snd) auto
  then show ?thesis
    by (simp add: in_display_order_def cs')
qed

lemma sort_roles_sorted:
  "sort_roles crs = Inr crs' \<Longrightarrow> (k, cs') \<in> set crs' \<Longrightarrow> in_display_order cs'"
proof (induction crs arbitrary: crs')
  case Nil
  then show ?case by simp
next
  case (Cons p crs)
  obtain r cs where p: "p = (r, cs)" by (cases p)
  from Cons.prems(1) obtain cs1 rest where
    a: "sort_creators cs = Inr cs1" "sort_roles crs = Inr rest" "crs' = (r, cs1) # rest"
    unfolding p by (auto split: sum.splits)
  from Cons.prems(2) a(3) consider "cs' = cs1" | "(k, cs') \<in> set rest" by auto
  then show ?case
  proof cases
    case 1
    with a(1) show ?thesis by (simp add: sort_creators_sorted)
  next
    case 2
    with Cons.IH [OF a(2)] show ?thesis by simp
  qed
qed

text \<open>
  The authors \<open>parseCreators\<close> returns are in display order, whether they were given
  the role \<^verbatim>\<open>aut\<close> or are the creators of no stated role.
\<close>

lemma parseCreators_sorted:
  assumes "parseCreators doc = Inr crs" and "map_of crs ''aut'' = Some aut"
  shows "in_display_order aut"
proof -
  from assms(1) obtain collected sorted_roles where
    s: "sort_roles collected = Inr sorted_roles" and
    c: "crs = (case (map_of sorted_roles ''unknown'', map_of sorted_roles ''aut'') of
                 (Some unknown, None) \<Rightarrow>
                   filter (\<lambda>(r, cs). r \<noteq> ''unknown'') sorted_roles @ [(''aut'', unknown)]
               | _ \<Rightarrow> sorted_roles)"
    by (auto simp: parseCreators_def split: sum.splits option.splits)
  have "\<exists>k. (k, aut) \<in> set sorted_roles"
  proof (cases "map_of sorted_roles ''aut''")
    case (Some a)
    with c have "crs = sorted_roles" by (simp split: option.splits)
    with assms(2) show ?thesis by (auto dest: map_of_SomeD)
  next
    case None
    show ?thesis
    proof (cases "map_of sorted_roles ''unknown''")
      case n: None
      with c have "crs = sorted_roles" by simp
      with assms(2) show ?thesis by (auto dest: map_of_SomeD)
    next
      case (Some unknown)
      with None c have crs:
        "crs = filter (\<lambda>(r, cs). r \<noteq> ''unknown'') sorted_roles @ [(''aut'', unknown)]"
        by simp
      from assms(2) have "(''aut'', aut) \<in> set crs" by (rule map_of_SomeD)
      moreover have "(''aut'', aut) \<notin> set sorted_roles"
        using None by (auto simp: map_of_eq_None_iff image_iff)
      ultimately have "aut = unknown" by (auto simp: crs)
      with Some show ?thesis by (auto dest: map_of_SomeD)
    qed
  qed
  with s show ?thesis by (auto dest: sort_roles_sorted)
qed

text \<open>
  A name that is not empty and neither begins nor ends with white space is written as
  words with gaps between them.
\<close>

lemma unpadded_weave:
  "nm \<noteq> [] \<Longrightarrow> \<not> is_space (hd nm) \<Longrightarrow> \<not> is_space (last nm) \<Longrightarrow>
   \<exists>ts ss. list_all word ts \<and> list_all gap ss \<and> length ts = Suc (length ss) \<and> nm = weave ts ss"
proof (induction nm rule: length_induct)
  case (1 nm)
  define t where "t = takeWhile (\<lambda>c. \<not> is_space c) nm"
  define r where "r = dropWhile (\<lambda>c. \<not> is_space c) nm"
  have nm: "nm = t @ r" by (simp add: t_def r_def)
  have "t \<noteq> []" using "1.prems" by (cases nm) (auto simp: t_def)
  moreover have "list_all (\<lambda>c. \<not> is_space c) t"
    by (auto simp: t_def list_all_iff dest: set_takeWhileD)
  ultimately have t: "word t" by (simp add: word_def)
  show ?case
  proof (cases "r = []")
    case True
    with nm t have "list_all word [t] \<and> list_all gap [] \<and>
        length [t] = Suc (length ([] :: string list)) \<and> nm = weave [t] []"
      by simp
    then show ?thesis by blast
  next
    case False
    define s where "s = takeWhile is_space r"
    define r' where "r' = dropWhile is_space r"
    have r: "r = s @ r'" by (simp add: s_def r'_def)
    have "is_space (hd r)"
      using False hd_dropWhile [of "\<lambda>c. \<not> is_space c" nm] by (simp add: r_def)
    then have "s \<noteq> []" using False by (cases r) (auto simp: s_def)
    moreover have spaces: "list_all is_space s"
      by (auto simp: s_def list_all_iff dest: set_takeWhileD)
    ultimately have s: "gap s" by (simp add: gap_def)
    have r'ne: "r' \<noteq> []"
    proof
      assume "r' = []"
      with r have "r = s" by simp
      with spaces \<open>s \<noteq> []\<close> have "is_space (last r)" by (simp add: list_all_iff)
      moreover have "last nm = last r" using nm False by simp
      ultimately show False using "1.prems" by simp
    qed
    have h: "\<not> is_space (hd r')"
      using r'ne hd_dropWhile [of is_space r] by (simp add: r'_def)
    have l: "\<not> is_space (last r')" using "1.prems" nm r r'ne by simp
    have "length r' < length nm" using nm r \<open>t \<noteq> []\<close> by simp
    with "1.IH" r'ne h l obtain ts ss where
      w: "list_all word ts" "list_all gap ss" "length ts = Suc (length ss)" "r' = weave ts ss"
      by blast
    from w(3) obtain u ts' where ts: "ts = u # ts'" by (cases ts) auto
    have "nm = weave (t # ts) (s # ss)" using nm r w(4) ts by simp
    moreover have "list_all word (t # ts)" "list_all gap (s # ss)"
      "length (t # ts) = Suc (length (s # ss))"
      using t s w by simp_all
    ultimately show ?thesis by blast
  qed
qed

text \<open>
  C8, as the source has it. \<open>getAuthors\<close> works on the group \<^verbatim>\<open>aut\<close> in its order,
  which is the display order when the set comes from \<open>parseCreators\<close>, and returns
  the empty list when the group is absent. For filing it returns, per author, the
  member \<^verbatim>\<open>for-filing\<close> when that is present and not empty, and otherwise the name
  derived from the display name: a name without white space is returned unchanged, and
  a name of two or more words has its last word moved to the front, followed by a comma
  and a space and by the other words joined with single spaces. Every name that is not
  empty and neither begins nor ends with white space is written as such words; the
  names that begin or end with white space are left out. Not for filing,
  \<open>getAuthors\<close> returns the display names.
\<close>

theorem getAuthors_for_filing:
  "getAuthors crs True
     = (case map_of crs ''aut'' of None \<Rightarrow> [] | Some aut \<Rightarrow> map filing_form aut) \<and>
   getAuthors crs False
     = (case map_of crs ''aut'' of None \<Rightarrow> [] | Some aut \<Rightarrow> map creator_name aut) \<and>
   (\<forall>doc aut. parseCreators doc = Inr crs \<and> map_of crs ''aut'' = Some aut
        \<longrightarrow> in_display_order aut) \<and>
   (\<forall>a. props a ''for-filing'' = None \<or> props a ''for-filing'' = Some []
        \<longrightarrow> filing_form a = filing_name (creator_name a)) \<and>
   (\<forall>a f. props a ''for-filing'' = Some f \<and> f \<noteq> [] \<longrightarrow> filing_form a = f) \<and>
   (\<forall>nm. list_all (\<lambda>c. \<not> is_space c) nm \<longrightarrow> filing_name nm = nm) \<and>
   (\<forall>ts ss. list_all word ts \<and> list_all gap ss \<and> 2 \<le> length ts \<and> length ts = Suc (length ss)
        \<longrightarrow> filing_name (weave ts ss) = last ts @ '', '' @ join '' '' (butlast ts)) \<and>
   (\<forall>nm. nm \<noteq> [] \<and> \<not> is_space (hd nm) \<and> \<not> is_space (last nm)
        \<longrightarrow> (\<exists>ts ss. list_all word ts \<and> list_all gap ss \<and> length ts = Suc (length ss) \<and>
                     nm = weave ts ss))"
proof (intro conjI allI impI)
  show "getAuthors crs True
     = (case map_of crs ''aut'' of None \<Rightarrow> [] | Some aut \<Rightarrow> map filing_form aut)"
    by (simp add: getAuthors_def authors_loop_map split: option.splits)
  show "getAuthors crs False
     = (case map_of crs ''aut'' of None \<Rightarrow> [] | Some aut \<Rightarrow> map creator_name aut)"
    by (simp add: getAuthors_def authors_loop_map split: option.splits)
next
  fix doc aut
  assume "parseCreators doc = Inr crs \<and> map_of crs ''aut'' = Some aut"
  then show "in_display_order aut" by (blast intro: parseCreators_sorted)
next
  fix a :: creator
  assume "props a ''for-filing'' = None \<or> props a ''for-filing'' = Some []"
  then show "filing_form a = filing_name (creator_name a)"
    by (auto simp: filing_form_def)
next
  fix a :: creator and f
  assume "props a ''for-filing'' = Some f \<and> f \<noteq> []"
  then show "filing_form a = f" by (simp add: filing_form_def)
next
  fix nm
  assume "list_all (\<lambda>c. \<not> is_space c) nm"
  then show "filing_name nm = nm" by (simp add: filing_name_def split_ws_word)
next
  fix ts ss
  assume a: "list_all word ts \<and> list_all gap ss \<and> 2 \<le> length ts \<and> length ts = Suc (length ss)"
  then have "split_ws (weave ts ss) = ts" by (simp add: split_ws_weave)
  moreover from a have "\<not> length ts \<le> 1" by (cases ss) auto
  ultimately show "filing_name (weave ts ss) = last ts @ '', '' @ join '' '' (butlast ts)"
    by (simp add: filing_name_def)
next
  fix nm
  assume "nm \<noteq> [] \<and> \<not> is_space (hd nm) \<and> \<not> is_space (last nm)"
  then have "nm \<noteq> []" "\<not> is_space (hd nm)" "\<not> is_space (last nm)" by simp_all
  then show "\<exists>ts ss. list_all word ts \<and> list_all gap ss \<and> length ts = Suc (length ss) \<and>
      nm = weave ts ss"
    by (rule unpadded_weave)
qed

lemma jane_doc_creators: "parseCreators jane_doc = Inr jane_creators"
  by (simp add: jane_doc_def jane_creators_def creator_defs refine_defs object_defs query_defs
      string_defs)

lemma empty_filing_doc_creators: "parseCreators empty_filing_doc = Inr empty_filing_creators"
  by (simp add: empty_filing_doc_def empty_filing_creators_def creator_defs refine_defs
      object_defs query_defs string_defs)

lemma seq_doc_creators: "parseCreators seq_doc = Inr seq_creators"
  by (simp add: seq_doc_def seq_creators_def seq_authors_def creator_defs refine_defs
      object_defs query_defs string_defs digit_value_def)

lemma padded_doc_creators: "parseCreators padded_doc = Inr padded_creators"
  by (simp add: padded_doc_def padded_creators_def creator_defs refine_defs object_defs
      query_defs string_defs)

theorem getAuthors_for_filing_witness:
  "parseCreators jane_doc = Inr jane_creators \<and>
   getAuthors jane_creators False = [''Jane Doe''] \<and>
   getAuthors jane_creators True = [''Doe, Jane''] \<and>
   list_all word [''Jane'', ''Doe''] \<and> list_all gap ['' ''] \<and>
   weave [''Jane'', ''Doe''] ['' ''] = ''Jane Doe'' \<and>
   filing_name ''Jane Doe'' = ''Doe, Jane'' \<and>
   filing_name ''Jane'' = ''Jane'' \<and>
   (\<exists>ts ss. list_all word ts \<and> list_all gap ss \<and> length ts = Suc (length ss) \<and>
      ''Jane Doe'' = weave ts ss) \<and>
   parseCreators seq_doc = Inr seq_creators \<and>
   map_of seq_creators ''aut'' = Some seq_authors \<and>
   in_display_order seq_authors \<and>
   getAuthors seq_creators False = [''Bob Ray'', ''Ann Lee'']"
proof -
  note t = getAuthors_for_filing [of jane_creators]
  have w: "list_all word [''Jane'', ''Doe'']" "list_all gap ['' '']"
    by (simp_all add: word_def gap_def is_space_def)
  have v: "weave [''Jane'', ''Doe''] ['' ''] = ''Jane Doe''"
    by simp
  have "list_all word ts \<and> list_all gap ss \<and> 2 \<le> length ts \<and> length ts = Suc (length ss)
        \<longrightarrow> filing_name (weave ts ss) = last ts @ '', '' @ join '' '' (butlast ts)" for ts ss
    using t by blast
  from this [of "[''Jane'', ''Doe'']" "['' '']"] w
  have f: "filing_name ''Jane Doe'' = ''Doe, Jane''"
    unfolding v by simp
  have "list_all (\<lambda>c. \<not> is_space c) nm \<longrightarrow> filing_name nm = nm" for nm
    using t by blast
  from this [of "''Jane''"] have n: "filing_name ''Jane'' = ''Jane''"
    by (simp add: is_space_def)
  have "nm \<noteq> [] \<and> \<not> is_space (hd nm) \<and> \<not> is_space (last nm)
        \<longrightarrow> (\<exists>ts ss. list_all word ts \<and> list_all gap ss \<and> length ts = Suc (length ss) \<and>
                     nm = weave ts ss)" for nm
    using t by blast
  from this [of "''Jane Doe''"]
  have u: "\<exists>ts ss. list_all word ts \<and> list_all gap ss \<and> length ts = Suc (length ss) \<and>
      ''Jane Doe'' = weave ts ss"
    by (simp add: is_space_def)
  have m: "map_of jane_creators ''aut''
      = Some [\<lparr>creator_name = ''Jane Doe'', creator_role = ''unknown'',
               props = Map.empty(''id'' \<mapsto> ''c1'')\<rparr>]"
    by (simp add: jane_creators_def)
  have a: "getAuthors jane_creators True = [''Doe, Jane'']"
    using t unfolding m by (simp add: filing_form_def f)
  have b: "getAuthors jane_creators False = [''Jane Doe'']"
    using t unfolding m by simp
  note q = getAuthors_for_filing [of seq_creators]
  have k: "map_of seq_creators ''aut'' = Some seq_authors"
    by (simp add: seq_creators_def)
  have "parseCreators doc = Inr seq_creators \<and> map_of seq_creators ''aut'' = Some aut
        \<longrightarrow> in_display_order aut" for doc aut
    using q by blast
  from this [of seq_doc seq_authors] have d: "in_display_order seq_authors"
    by (simp add: seq_doc_creators k)
  have e: "getAuthors seq_creators False = [''Bob Ray'', ''Ann Lee'']"
    using q unfolding k by (simp add: seq_authors_def)
  show ?thesis using jane_doc_creators seq_doc_creators a b w v f n u k d e by simp
qed

text \<open>
  The claim C8 fails on \<open>empty_filing_doc\<close>: the attribute \<^verbatim>\<open>for-filing\<close> is
  present, with the empty value, and \<open>getAuthors\<close> returns the derived name and not
  the attribute. It fails on \<open>padded_doc\<close> as well: the text of the first creator ends
  with a space and the split leaves an empty last piece, which is moved to the front;
  the text of the second begins with a space, and that name of a single word is not
  returned unchanged.
\<close>

theorem getAuthors_counterexample:
  "parseCreators empty_filing_doc = Inr empty_filing_creators \<and>
   map_of empty_filing_creators ''aut''
     = Some [\<lparr>creator_name = ''Jane Doe'', creator_role = ''unknown'',
              props = Map.empty(''for-filing'' \<mapsto> [])\<rparr>] \<and>
   getAuthors empty_filing_creators True = [''Doe, Jane''] \<and>
   parseCreators padded_doc = Inr padded_creators \<and>
   getAuthors padded_creators False = [''Jane Doe '', '' Solo''] \<and>
   getAuthors padded_creators True = ['', Jane Doe'', ''Solo, '']"
  by (simp add: empty_filing_doc_creators padded_doc_creators)
    (simp add: empty_filing_creators_def padded_creators_def creator_defs object_defs
      string_defs)

subsection \<open>The constructor\<close>

lemma getMeta_dc_date:
  "getMeta doc ''dc:date''
     = Inr (case dc_dates doc of [] \<Rightarrow> None | el # els \<Rightarrow> Some (textContent el))"
  by (simp add: getMeta_def getMetas_def dc_dates_def sel_metadata_def string_defs
      split: list.splits)

text \<open>
  C9, as the source has it. When the constructor returns, the publication date is
  \<^verbatim>\<open>null\<close> for a document without \<^verbatim>\<open>dc:date\<close>, the empty string when the text
  of the first \<^verbatim>\<open>dc:date\<close> is empty, and otherwise the object
  \<^verbatim>\<open>new Date(text)\<close>: for a text that cannot be parsed this is a date object whose
  time value is NaN. Nothing is raised on account of the date.
\<close>

theorem publicationDate_field:
  assumes "OPF formatISBN validateISBN parseLanguage dateValue doc = Inr r"
  shows "publicationDate r =
           (case dc_dates doc of
              [] \<Rightarrow> NoDate None
            | el # els \<Rightarrow>
                if textContent el = [] then NoDate (Some [])
                else DateObject (dateValue (textContent el)))"
  using assms
  by (auto simp: OPF_def and_then_def getMeta_dc_date truthy_def or_else_def
      split: sum.splits list.splits)

lemma dated_doc_returns:
  "\<not> isl (OPF sample_hyphenate sample_validate sample_parseLanguage sample_dateValue (dated_doc d))"
  by (simp add: dated_doc_def opf_defs cover_defs  title_defs identifier_defs
      creator_defs spine_defs refine_defs object_defs query_defs string_defs)

theorem publicationDate_field_witness:
  "dc_dates (dated_doc ''2019'') = [Element ''dc:date'' [] [Text ''2019'']] \<and>
   sample_dateValue ''2019'' = Some 1546300800000 \<and>
   map_sum id publicationDate
     (OPF sample_hyphenate sample_validate sample_parseLanguage sample_dateValue
        (dated_doc ''2019''))
     = Inr (DateObject (Some 1546300800000))"
proof -
  obtain r where r: "OPF sample_hyphenate sample_validate sample_parseLanguage sample_dateValue
                       (dated_doc ''2019'') = Inr r"
    using dated_doc_returns [of "''2019''"]
    by (cases "OPF sample_hyphenate sample_validate sample_parseLanguage sample_dateValue
                 (dated_doc ''2019'')") simp_all
  have d: "dc_dates (dated_doc ''2019'') = [Element ''dc:date'' [] [Text ''2019'']]"
    by (simp add: dc_dates_def dated_doc_def query_defs string_defs)
  have v: "sample_dateValue ''2019'' = Some 1546300800000"
    by (simp add: sample_dateValue_def is_digit_def)
  have "publicationDate r = DateObject (Some 1546300800000)"
    using publicationDate_field [OF r] unfolding d by (simp add: v)
  then show ?thesis using r d v by simp
qed

text \<open>
  The claim C9 fails on \<open>dated_doc ''foo''\<close>: the text of \<^verbatim>\<open>dc:date\<close> cannot be
  parsed, and the record holds an invalid date object, not an absent field.
\<close>

theorem publicationDate_counterexample:
  "dc_dates (dated_doc ''foo'') = [Element ''dc:date'' [] [Text ''foo'']] \<and>
   sample_dateValue ''foo'' = None \<and>
   map_sum id publicationDate
     (OPF sample_hyphenate sample_validate sample_parseLanguage sample_dateValue
        (dated_doc ''foo''))
     = Inr (DateObject None)"
  by (simp add: dated_doc_def dc_dates_def sample_dateValue_def opf_defs cover_defs title_defs
      identifier_defs creator_defs spine_defs refine_defs object_defs query_defs string_defs)

subsection \<open>The refinement resolver\<close>

lemma own_attributes_mono:
  "scheme k \<noteq> None \<Longrightarrow> own_attributes ds el attrs scheme k \<noteq> None"
  by (induction attrs arbitrary: scheme) (auto simp: put_string_def split: option.splits)

lemma own_attributes_present:
  "a \<in> set attrs \<Longrightarrow> getAttribute el a = Some val \<Longrightarrow> attr_key ds a \<noteq> ''__proto__'' \<Longrightarrow>
   own_attributes ds el attrs scheme (attr_key ds a) \<noteq> None"
proof (induction attrs arbitrary: scheme)
  case Nil
  then show ?case by simp
next
  case (Cons b attrs)
  show ?case
  proof (cases "a = b")
    case True
    with Cons.prems show ?thesis
      by (simp add: own_attributes_mono put_string_def attr_key_def)
  next
    case False
    with Cons show ?thesis by simp
  qed
qed

lemma getAttribute_name:
  "getAttribute el a = Some val \<Longrightarrow> a \<in> set (getAttributeNames el)"
  by (cases el) (force dest: map_of_SomeD)+

lemma own_view_present:
  "getAttribute el a = Some val \<Longrightarrow> attr_key ds a \<noteq> ''__proto__'' \<Longrightarrow>
   own_view el ds (attr_key ds a) \<noteq> None"
  unfolding own_view_def by (rule own_attributes_present [OF getAttribute_name])

lemma own_attributes_exact:
  "own_attributes False el attrs scheme k
     = (if k \<in> set attrs \<and> k \<noteq> ''__proto__'' \<and> getAttribute el k \<noteq> None
        then getAttribute el k else scheme k)"
  by (induction attrs arbitrary: scheme) (auto simp: put_string_def split: option.splits)

lemma own_view_exact:
  "own_view el False k = (if k = ''__proto__'' then None else getAttribute el k)"
  unfolding own_view_def own_attributes_exact
  by (cases "getAttribute el k") (auto dest: getAttribute_name)

lemma refine_grouped_noScheme:
  "refine_grouped ds els obj = Inr g \<Longrightarrow> obj ''noScheme'' = Some ns \<Longrightarrow>
   \<exists>ns'. g ''noScheme'' = Some ns' \<and> (\<forall>k. ns k \<noteq> None \<longrightarrow> ns' k \<noteq> None)"
proof (induction els arbitrary: obj ns)
  case Nil
  then show ?case by auto
next
  case (Cons el els)
  let ?s = "or_else (getAttribute el ''scheme'') ''noScheme''"
  show ?case
  proof (cases "truthy (getAttribute el ''property'')")
    case False
    with Cons.prems have "refine_grouped ds els obj = Inr g"
      by (auto simp: truthy_def Let_def split: option.splits if_splits)
    with Cons.IH Cons.prems(2) show ?thesis by blast
  next
    case True
    then obtain attr where attr: "getAttribute el ''property'' = Some attr" "attr \<noteq> []"
      by (auto simp: truthy_def split: option.splits)
    let ?k = "if ds then strip_scheme attr else attr"
    show ?thesis
    proof (cases "js_get obj ?s")
      case (Own grp)
      with Cons.prems attr
      have step: "refine_grouped ds els (obj(?s \<mapsto> put_string grp ?k (textContent el))) = Inr g"
        by (simp add: Let_def)
      from Own have grp: "obj ?s = Some grp"
        by (auto simp: js_get_def split: option.splits if_splits)
      have "\<exists>ns1. (obj(?s \<mapsto> put_string grp ?k (textContent el))) ''noScheme'' = Some ns1 \<and>
                  (\<forall>k. ns k \<noteq> None \<longrightarrow> ns1 k \<noteq> None)"
        using grp Cons.prems(2) by (auto simp: put_string_def)
      then obtain ns1 where
        ns1: "(obj(?s \<mapsto> put_string grp ?k (textContent el))) ''noScheme'' = Some ns1"
        and sub: "\<forall>k. ns k \<noteq> None \<longrightarrow> ns1 k \<noteq> None"
        by blast
      from Cons.IH [OF step ns1] sub show ?thesis by blast
    next
      case (Inherited m)
      with Cons.prems attr show ?thesis by (simp add: Let_def)
    next
      case Missing
      with Cons.prems attr
      have step: "refine_grouped ds els
                    (obj(?s \<mapsto> put_string Map.empty ?k (textContent el))) = Inr g"
        by (simp add: Let_def)
      from Missing have "obj ?s = None"
        by (auto simp: js_get_def split: option.splits if_splits)
      with Cons.prems(2)
      have "(obj(?s \<mapsto> put_string Map.empty ?k (textContent el))) ''noScheme'' = Some ns"
        by auto
      from Cons.IH [OF step this] show ?thesis .
    qed
  qed
qed

text \<open>
  C10, as the source has it. Whenever \<open>refineMeta\<close> returns, it returns the object
  \<^verbatim>\<open>o\<close>, which is a view and never \<^verbatim>\<open>null\<close>: flat when flattening, a map of
  groups otherwise. When grouping, the view has a group \<^verbatim>\<open>noScheme\<close> with a key for
  every attribute of the element (but \<^verbatim>\<open>__proto__\<close>); when the element has no
  \<^verbatim>\<open>id\<close> that group is the only one and holds exactly the element's own attributes,
  each under its name with its value. A returned view is an object and hence truthy, so
  the test \<^verbatim>\<open>if(!attrs) continue\<close> of \<open>parseIdentifiers\<close> never takes its branch;
  \<open>identifier_step\<close> has no such branch.
\<close>

theorem refineMeta_view:
  assumes "refineMeta doc el flatten dropSchemes = Inr v"
  shows "(flatten \<longrightarrow> (\<exists>m. v = Flat m)) \<and>
         (\<not> flatten \<longrightarrow>
            (\<exists>groups ns. v = Grouped groups \<and> groups ''noScheme'' = Some ns \<and>
               (\<forall>a val. getAttribute el a = Some val \<and> attr_key dropSchemes a \<noteq> ''__proto__''
                    \<longrightarrow> ns (attr_key dropSchemes a) \<noteq> None) \<and>
               (\<not> truthy (own_view el dropSchemes ''id'')
                    \<longrightarrow> groups = Map.empty(''noScheme'' \<mapsto> own_view el dropSchemes)))) \<and>
         (\<forall>k. own_view el False k = (if k = ''__proto__'' then None else getAttribute el k))"
proof (intro conjI impI allI)
  assume flatten
  with assms show "\<exists>m. v = Flat m"
    by (cases "refineMeta_flat doc el dropSchemes") (auto simp: refineMeta_def)
next
  assume nf: "\<not> flatten"
  with assms obtain groups where g: "refineMeta_grouped doc el dropSchemes = Inr groups"
    and v: "v = Grouped groups"
    by (cases "refineMeta_grouped doc el dropSchemes") (auto simp: refineMeta_def)
  let ?own = "own_view el dropSchemes"
  have "\<exists>ns. groups ''noScheme'' = Some ns \<and> (\<forall>k. ?own k \<noteq> None \<longrightarrow> ns k \<noteq> None)"
  proof (cases "truthy (?own ''id'')")
    case False
    with g have "groups = Map.empty(''noScheme'' \<mapsto> ?own)"
      by (auto simp: refineMeta_grouped_def own_view_def Let_def truthy_def
          split: option.splits if_splits)
    then show ?thesis by simp
  next
    case True
    then obtain ident where i: "?own ''id'' = Some ident" "ident \<noteq> []"
      by (auto simp: truthy_def split: option.splits)
    with g obtain sel where
      "refine_grouped dropSchemes (querySelectorAll doc sel) (Map.empty(''noScheme'' \<mapsto> ?own))
         = Inr groups"
      by (cases "sel_refines ident")
        (auto simp: refineMeta_grouped_def own_view_def Let_def)
    from refine_grouped_noScheme [OF this] show ?thesis by simp
  qed
  then obtain ns where ns: "groups ''noScheme'' = Some ns"
    and sub: "\<forall>k. ?own k \<noteq> None \<longrightarrow> ns k \<noteq> None"
    by blast
  have keys: "\<forall>a val. getAttribute el a = Some val \<and> attr_key dropSchemes a \<noteq> ''__proto__''
                \<longrightarrow> ns (attr_key dropSchemes a) \<noteq> None"
    using sub own_view_present by blast
  have exact: "\<not> truthy (?own ''id'') \<longrightarrow> groups = Map.empty(''noScheme'' \<mapsto> ?own)"
    using g
    by (auto simp: refineMeta_grouped_def own_view_def Let_def truthy_def
        split: option.splits if_splits)
  show "\<exists>groups ns. v = Grouped groups \<and> groups ''noScheme'' = Some ns \<and>
          (\<forall>a val. getAttribute el a = Some val \<and> attr_key dropSchemes a \<noteq> ''__proto__''
               \<longrightarrow> ns (attr_key dropSchemes a) \<noteq> None) \<and>
          (\<not> truthy (own_view el dropSchemes ''id'')
               \<longrightarrow> groups = Map.empty(''noScheme'' \<mapsto> own_view el dropSchemes))"
    using v ns keys exact by blast
next
  fix k
  show "own_view el False k = (if k = ''__proto__'' then None else getAttribute el k)"
    by (rule own_view_exact)
qed

text \<open>
  The claim C10 fails on two elements. The \<^verbatim>\<open>id\<close> of \<open>dotted_id_el\<close> makes the
  selector \<^verbatim>\<open>meta[refines=\#isbn.13]\<close> ill-formed: \<open>refineMeta\<close> raises and returns
  no view. In \<open>overwritten_doc\<close> a refining meta without scheme has the property
  \<^verbatim>\<open>id\<close>: the group \<^verbatim>\<open>noScheme\<close> holds its text and no longer the attribute
  \<^verbatim>\<open>id="foo"\<close> of the element.
\<close>

theorem refineMeta_counterexample:
  "refineMeta dotted_id_doc dotted_id_el False False = Inl SyntaxError \<and>
   getAttribute foo_el ''id'' = Some ''foo'' \<and>
   refineMeta overwritten_doc foo_el False False
     = Inr (Grouped (Map.empty(''noScheme'' \<mapsto> Map.empty(''id'' \<mapsto> ''bar''))))"
  by (simp add: dotted_id_doc_def dotted_id_el_def overwritten_doc_def foo_el_def refine_defs
      object_defs query_defs string_defs)

theorem refineMeta_view_witness:
  "refineMeta onix_doc pub_id_el False False
     = Inr (Grouped (Map.empty(''noScheme'' \<mapsto> Map.empty(''id'' \<mapsto> ''pub-id''),
                               ''onix:codelist5'' \<mapsto> Map.empty(''identifier-type'' \<mapsto> ''15'')))) \<and>
   getAttribute pub_id_el ''id'' = Some ''pub-id'' \<and>
   (\<exists>ns. (Map.empty(''noScheme'' \<mapsto> Map.empty(''id'' \<mapsto> ''pub-id''),
                      ''onix:codelist5'' \<mapsto> Map.empty(''identifier-type'' \<mapsto> ''15''))) ''noScheme''
           = Some ns \<and> ns ''id'' \<noteq> None) \<and>
   refineMeta titles_doc title_bar True True
     = Inr (Flat (Map.empty(''id'' \<mapsto> ''t2'', ''title-type'' \<mapsto> ''subtitle'')))"
proof -
  let ?G = "Map.empty(''noScheme'' \<mapsto> Map.empty(''id'' \<mapsto> ''pub-id''),
                      ''onix:codelist5'' \<mapsto> Map.empty(''identifier-type'' \<mapsto> ''15''))"
  have r: "refineMeta onix_doc pub_id_el False False = Inr (Grouped ?G)"
    by (simp add: refine_defs onix_doc_def pub_id_el_def object_defs query_defs string_defs)
  have a: "getAttribute pub_id_el ''id'' = Some ''pub-id''"
    by (simp add: pub_id_el_def)
  have k: "attr_key False ''id'' \<noteq> ''__proto__''" "attr_key False ''id'' = ''id''"
    by (simp_all add: attr_key_def)
  from refineMeta_view [OF r]
  obtain groups ns where g: "Grouped ?G = Grouped groups" "groups ''noScheme'' = Some ns"
    and keys: "\<forall>a val. getAttribute pub_id_el a = Some val \<and> attr_key False a \<noteq> ''__proto__''
                 \<longrightarrow> ns (attr_key False a) \<noteq> None"
    by blast
  from keys a k have "ns ''id'' \<noteq> None" by metis
  with g have e: "\<exists>ns. ?G ''noScheme'' = Some ns \<and> ns ''id'' \<noteq> None" by auto
  have f: "refineMeta titles_doc title_bar True True
     = Inr (Flat (Map.empty(''id'' \<mapsto> ''t2'', ''title-type'' \<mapsto> ''subtitle'')))"
    by (simp add: refine_defs titles_doc_def title_foo_def title_bar_def object_defs query_defs
        string_defs)
  show ?thesis using r a e f by blast
qed

end
